theory Spec2Isabelle
  imports Complex_Main "HOL-Library.Word"
begin

unbundle bit_operations_syntax

section \<open>The stepper core of Grbl (stepper\_time.c): data model\<close>

text \<open>
  The development follows \<^verbatim>\<open>src/archive/stepper_time.c\<close>. Machine integers are
  words: \<open>uint8_t\<close> is \<open>8 word\<close>, \<open>uint32_t\<close> and \<open>int32_t\<close> are \<open>32 word\<close> (an
  \<open>int32_t\<close> is read through \<open>sint\<close>, so that \<open>c < 0\<close> in the source is \<open>sint c < 0\<close>).
  The \<open>float\<close> quantities of the segment preparer are modelled by real numbers: rounding,
  infinities and NaN of IEEE arithmetic are outside the model. A conversion of a
  floating-point value to an unsigned integer field is \<open>word_of_int\<close> of the value,
  that is, the value modulo the width of the field.
\<close>

type_synonym u8 = "8 word"
type_synonym u32 = "32 word"
type_synonym i32 = "32 word"

datatype axis = X_AXIS | Y_AXIS | Z_AXIS

text \<open>
  Compile-time constants that the file takes from headers which are not part of the
  sources (config.h, pin\_map.h, nuts\_bolts.h, settings.h, avr/io.h). They are
  parameters of the model.
\<close>

record config =
  ISR_TICKS_PER_SECOND :: real
  ACCELERATION_TICKS_PER_SECOND :: real
  INV_TIME_MULTIPLIER :: real
  F_CPU :: nat
  X_STEP_BIT :: nat
  Y_STEP_BIT :: nat
  Z_STEP_BIT :: nat
  X_DIRECTION_BIT :: nat
  Y_DIRECTION_BIT :: nat
  Z_DIRECTION_BIT :: nat
  STEP_MASK :: u8
  DIRECTION_MASK :: u8
  STEPPERS_DISABLE_BIT :: nat
  SPINDLE_ENABLE_BIT :: nat
  OCIE2A :: nat
  CS21 :: nat
  BITFLAG_INVERT_ST_ENABLE :: u8
  EXEC_CYCLE_STOP :: u8
  EXEC_ALARM :: u8

text \<open>The constants the file defines itself (lines 30--49).\<close>

definition TICKS_PER_MICROSECOND :: "config \<Rightarrow> nat" where
  "TICKS_PER_MICROSECOND cfg = F_CPU cfg div 1000000"

definition LOAD_NOOP :: u8 where "LOAD_NOOP = 0"
definition LOAD_SEGMENT :: u8 where "LOAD_SEGMENT = 1"
definition LOAD_BLOCK :: u8 where "LOAD_BLOCK = 2"

definition SEGMENT_NOOP :: u8 where "SEGMENT_NOOP = 0"
definition SEGMENT_END_OF_BLOCK :: u8 where "SEGMENT_END_OF_BLOCK = push_bit 0 1"

definition MINIMUM_STEPS_PER_SEGMENT :: nat where "MINIMUM_STEPS_PER_SEGMENT = 1"

definition SEGMENT_BUFFER_SIZE :: u8 where "SEGMENT_BUFFER_SIZE = 6"

text \<open>
  Line 49: \<^verbatim>\<open>#define DT_SEGMENT ACCELERATION_TICKS_PER_SECOND/ISR_TICKS_PER_SECOND\<close>.
  The macro is substituted textually and without parentheses; over the reals every
  use in the file (\<open>x*DT_SEGMENT\<close>, \<open>0.5*DT_SEGMENT*DT_SEGMENT\<close>, \<open>DT_SEGMENT-dt\<close>)
  has the value obtained from the quotient below. The two constants come from config.h
  and are taken as real numbers; were both integer constants there, the uses
  \<open>dt = DT_SEGMENT\<close> and \<open>dt < DT_SEGMENT\<close> would divide as integers.
\<close>

definition DT_SEGMENT :: "config \<Rightarrow> real" where
  "DT_SEGMENT cfg = ACCELERATION_TICKS_PER_SECOND cfg / ISR_TICKS_PER_SECOND cfg"

text \<open>
  The segment duration of the specification:
  \<open>TICKS_PER_ACCEL_TICK / ISR_TICKS_PER_SECOND\<close> with
  \<open>TICKS_PER_ACCEL_TICK = ISR_TICKS_PER_SECOND / ACCELERATION_TICKS_PER_SECOND\<close>.
\<close>

definition spec_DT_SEGMENT :: "config \<Rightarrow> real" where
  "spec_DT_SEGMENT cfg =
     (ISR_TICKS_PER_SECOND cfg / ACCELERATION_TICKS_PER_SECOND cfg) / ISR_TICKS_PER_SECOND cfg"

text \<open>
  The planner block (planner.h), as far as the stepper core reads it. The header is not
  part of the sources: the step counts are taken as unsigned 32-bit numbers, as the
  specification describes them, and the lengths and speeds as \<open>float\<close>.
\<close>

record plan_block_t =
  direction_bits :: u8
  steps :: "axis \<Rightarrow> u32"
  step_event_count :: u32
  millimeters :: real
  entry_speed_sqr :: real
  nominal_speed_sqr :: real
  pl_acceleration :: real

text \<open>\<open>stepper_t\<close> (lines 52--70).\<close>

record stepper_t =
  counter_x :: i32
  counter_y :: i32
  counter_z :: i32
  counter_dist :: i32
  step_count :: u8
  phase_count :: u8
  execute_step :: bool
  step_pulse_time :: u8
  out_bits :: u8
  load_flag :: u8

text \<open>\<open>st_data_t\<close> (lines 76--88).\<close>

record st_data_t =
  dist_per_step :: u32
  step_events_remaining :: real
  accelerate_until :: real
  decelerate_after :: real
  current_rate :: real
  maximum_rate :: real
  exit_rate :: real
  acceleration :: real
  step_per_mm :: real

text \<open>\<open>st_segment_t\<close> (lines 93--100).\<close>

record st_segment_t =
  n_step :: u8
  n_phase_tick :: u8
  dist_per_tick :: u32
  st_data_index :: u8
  flag :: u8

datatype sys_state_t = STATE_IDLE | STATE_QUEUED | STATE_CYCLE | STATE_HOLD | STATE_ALARM

text \<open>
  The planner interface, as seen during one call of the core: the block
  \<open>plan_get_block_by_index\<close> returns for an index (\<open>None\<close> is \<open>NULL\<close>), the successor of an
  index, and the block \<open>plan_get_current_block\<close> returns. The planner itself is not
  part of the sources; a call of \<open>plan_discard_current_block\<close> is counted in the
  machine state.
\<close>

record planner =
  plan_get_block_by_index :: "u8 \<Rightarrow> plan_block_t option"
  plan_next_block_index :: "u8 \<Rightarrow> u8"
  plan_get_current_block :: "plan_block_t option"

text \<open>
  The static variables of the file (lines 70--118), the parts of \<open>sys\<close> and \<open>settings\<close>
  it uses, and the device registers it writes. The two arrays are stores indexed by the
  slot number; a pointer into an array is the slot number, \<open>None\<close> is \<open>NULL\<close>. The
  pointers to planner blocks hold the block they point to.
\<close>

record machine =
  st :: stepper_t
  segment_data :: "nat \<Rightarrow> st_data_t"
  segment_buffer :: "nat \<Rightarrow> st_segment_t"
  segment_buffer_tail :: u8
  segment_buffer_head :: u8
  segment_next_head :: u8
  busy :: bool
  pl_current_block :: "plan_block_t option"
  st_current_segment :: "nat option"
  st_current_data :: "nat option"
  pl_prep_block :: "plan_block_t option"
  st_prep_data :: "nat option"
  pl_prep_index :: u8
  st_data_prep_index :: u8
  pl_partial_block_flag :: bool
  sys_state :: sys_state_t
  sys_execute :: u8
  sys_position :: "axis \<Rightarrow> i32"
  sys_auto_start :: bool
  settings_flags :: u8
  invert_mask :: u8
  pulse_microseconds :: u8
  stepper_idle_lock_time :: u8
  STEPPING_PORT :: u8
  STEPPERS_DISABLE_PORT :: u8
  SPINDLE_ENABLE_PORT :: u8
  TCNT0 :: u8
  TCCR0B :: u8
  TCNT2 :: u8
  TIMSK2 :: u8
  TCCR2B :: u8
  delay_ms_total :: nat
  plan_discard_calls :: nat

text \<open>\<open>bit(n)\<close>, \<open>bit_true\<close> and \<open>bit_istrue\<close> of nuts\_bolts.h.\<close>

definition bit_mask :: "nat \<Rightarrow> u8" where
  "bit_mask n = push_bit n 1"

definition bit_istrue :: "u8 \<Rightarrow> u8 \<Rightarrow> bool" where
  "bit_istrue x m = (x AND m \<noteq> 0)"

section \<open>Cycle control\<close>

text \<open>\<open>st_wake_up\<close> (lines 140--161).\<close>

definition st_wake_up :: "config \<Rightarrow> machine \<Rightarrow> machine" where
  "st_wake_up cfg s =
     (let s1 = (if bit_istrue (settings_flags s) (BITFLAG_INVERT_ST_ENABLE cfg)
                then s\<lparr>STEPPERS_DISABLE_PORT :=
                         STEPPERS_DISABLE_PORT s OR bit_mask (STEPPERS_DISABLE_BIT cfg)\<rparr>
                else s\<lparr>STEPPERS_DISABLE_PORT :=
                         STEPPERS_DISABLE_PORT s AND NOT (bit_mask (STEPPERS_DISABLE_BIT cfg))\<rparr>)
      in if sys_state s1 = STATE_CYCLE
         then s1\<lparr>st := (st s1)\<lparr>out_bits := invert_mask s1,
                     step_pulse_time :=
                       word_of_int (- ((((uint (pulse_microseconds s1) - 2)
                                          * int (TICKS_PER_MICROSECOND cfg)) mod 2 ^ 32) div 8)),
                     execute_step := False,
                     load_flag := LOAD_BLOCK\<rparr>,
                 TCNT2 := 0,
                 TIMSK2 := TIMSK2 s1 OR bit_mask (OCIE2A cfg),
                 TCCR2B := bit_mask (CS21 cfg)\<rparr>
         else s1)"

text \<open>\<open>st_go_idle\<close> (lines 165--183); \<open>delay_ms\<close> is recorded as elapsed time.\<close>

definition st_go_idle :: "config \<Rightarrow> machine \<Rightarrow> machine" where
  "st_go_idle cfg s =
     (let s1 = s\<lparr>TIMSK2 := TIMSK2 s AND NOT (bit_mask (OCIE2A cfg)),
                 TCCR2B := 0,
                 busy := False\<rparr>
      in if stepper_idle_lock_time s1 \<noteq> 255 \<or> bit_istrue (sys_execute s1) (EXEC_ALARM cfg)
         then (let s2 = s1\<lparr>delay_ms_total :=
                             delay_ms_total s1 + unat (stepper_idle_lock_time s1)\<rparr>
               in if bit_istrue (settings_flags s2) (BITFLAG_INVERT_ST_ENABLE cfg)
                  then s2\<lparr>STEPPERS_DISABLE_PORT :=
                           STEPPERS_DISABLE_PORT s2 AND NOT (bit_mask (STEPPERS_DISABLE_BIT cfg))\<rparr>
                  else s2\<lparr>STEPPERS_DISABLE_PORT :=
                           STEPPERS_DISABLE_PORT s2 OR bit_mask (STEPPERS_DISABLE_BIT cfg)\<rparr>)
         else s1)"

text \<open>\<open>st_reset\<close> (lines 349--366): \<open>memset\<close> clears every field of \<open>st\<close>.\<close>

definition st_reset :: "machine \<Rightarrow> machine" where
  "st_reset s =
     s\<lparr>st := \<lparr>counter_x = 0, counter_y = 0, counter_z = 0, counter_dist = 0,
              step_count = 0, phase_count = 0, execute_step = False,
              step_pulse_time = 0, out_bits = 0, load_flag = LOAD_BLOCK\<rparr>,
       busy := False,
       pl_current_block := None,
       pl_prep_block := None,
       pl_prep_index := 0,
       st_data_prep_index := 0,
       segment_buffer_tail := 0,
       segment_buffer_head := 0,
       segment_next_head := 1,
       pl_partial_block_flag := False\<rparr>"

text \<open>\<open>st_feed_hold\<close> (lines 409--415) and \<open>st_cycle_reinitialize\<close> (lines 423--445).\<close>

definition st_feed_hold :: "machine \<Rightarrow> machine" where
  "st_feed_hold s =
     (if sys_state s = STATE_CYCLE
      then s\<lparr>sys_state := STATE_HOLD, sys_auto_start := False\<rparr>
      else s)"

definition st_cycle_reinitialize :: "machine \<Rightarrow> machine" where
  "st_cycle_reinitialize s = s\<lparr>sys_state := STATE_IDLE\<rparr>"

section \<open>The step-pulse executor\<close>

text \<open>
  A function of the file either runs on, returns early, or dereferences a \<open>NULL\<close>
  pointer; the last has no defined behaviour and is a value of its own.
\<close>

datatype 'a flow = Go 'a | Exit 'a | Fault

text \<open>Lines 223--228: the step and direction pins are written from \<open>out_bits\<close>.\<close>

definition isr_latch :: "config \<Rightarrow> machine \<Rightarrow> machine" where
  "isr_latch cfg s =
     (if execute_step (st s)
      then s\<lparr>st := (st s)\<lparr>execute_step := False\<rparr>,
             STEPPING_PORT :=
               (STEPPING_PORT s AND NOT (DIRECTION_MASK cfg OR STEP_MASK cfg)) OR out_bits (st s),
             TCNT0 := step_pulse_time (st s),
             TCCR0B := bit_mask (CS21 cfg)\<rparr>
      else s)"

text \<open>
  Lines 235--272: the segment load phase. With an empty buffer the interrupt calls
  \<open>st_go_idle\<close>, flags the cycle stop and returns.
\<close>

definition isr_load :: "config \<Rightarrow> planner \<Rightarrow> machine \<Rightarrow> machine flow" where
  "isr_load cfg pl s =
     (if load_flag (st s) \<noteq> LOAD_NOOP
      then if segment_buffer_head s \<noteq> segment_buffer_tail s
           then (let t = unat (segment_buffer_tail s);
                     s1 = s\<lparr>st_current_segment := Some t,
                            st := (st s)\<lparr>step_count := n_step (segment_buffer s t)\<rparr>\<rparr>
                 in if load_flag (st s1) = LOAD_BLOCK
                    then (case plan_get_current_block pl of
                            None \<Rightarrow> Fault
                          | Some b \<Rightarrow>
                              (let di = unat (st_data_index (segment_buffer s1 t));
                                   c = drop_bit 1 (step_event_count b)
                               in Go (s1\<lparr>pl_current_block := Some b,
                                         st_current_data := Some di,
                                         st := (st s1)\<lparr>out_bits := direction_bits b XOR invert_mask s1,
                                                  execute_step := True,
                                                  counter_x := c,
                                                  counter_y := c,
                                                  counter_z := c,
                                                  counter_dist := dist_per_step (segment_data s1 di),
                                                  load_flag := LOAD_NOOP\<rparr>\<rparr>)))
                    else Go (s1\<lparr>st := (st s1)\<lparr>load_flag := LOAD_NOOP\<rparr>\<rparr>))
           else Exit ((st_go_idle cfg s)\<lparr>sys_execute :=
                        sys_execute (st_go_idle cfg s) OR EXEC_CYCLE_STOP cfg\<rparr>)
      else Go s)"

text \<open>Lines 286--306: the Bresenham tracer, one axis after the other.\<close>

definition step_x :: "config \<Rightarrow> plan_block_t \<Rightarrow> machine \<Rightarrow> machine" where
  "step_x cfg b s =
     (let c = counter_x (st s) - steps b X_AXIS
      in if sint c < 0
         then (let ob = out_bits (st s) OR bit_mask (X_STEP_BIT cfg)
               in s\<lparr>st := (st s)\<lparr>counter_x := c + step_event_count b, out_bits := ob\<rparr>,
                     sys_position := (sys_position s)
                       (X_AXIS := (if ob AND bit_mask (X_DIRECTION_BIT cfg) \<noteq> 0
                                   then sys_position s X_AXIS - 1
                                   else sys_position s X_AXIS + 1))\<rparr>)
         else s\<lparr>st := (st s)\<lparr>counter_x := c\<rparr>\<rparr>)"

definition step_y :: "config \<Rightarrow> plan_block_t \<Rightarrow> machine \<Rightarrow> machine" where
  "step_y cfg b s =
     (let c = counter_y (st s) - steps b Y_AXIS
      in if sint c < 0
         then (let ob = out_bits (st s) OR bit_mask (Y_STEP_BIT cfg)
               in s\<lparr>st := (st s)\<lparr>counter_y := c + step_event_count b, out_bits := ob\<rparr>,
                     sys_position := (sys_position s)
                       (Y_AXIS := (if ob AND bit_mask (Y_DIRECTION_BIT cfg) \<noteq> 0
                                   then sys_position s Y_AXIS - 1
                                   else sys_position s Y_AXIS + 1))\<rparr>)
         else s\<lparr>st := (st s)\<lparr>counter_y := c\<rparr>\<rparr>)"

definition step_z :: "config \<Rightarrow> plan_block_t \<Rightarrow> machine \<Rightarrow> machine" where
  "step_z cfg b s =
     (let c = counter_z (st s) - steps b Z_AXIS
      in if sint c < 0
         then (let ob = out_bits (st s) OR bit_mask (Z_STEP_BIT cfg)
               in s\<lparr>st := (st s)\<lparr>counter_z := c + step_event_count b, out_bits := ob\<rparr>,
                     sys_position := (sys_position s)
                       (Z_AXIS := (if ob AND bit_mask (Z_DIRECTION_BIT cfg) \<noteq> 0
                                   then sys_position s Z_AXIS - 1
                                   else sys_position s Z_AXIS + 1))\<rparr>)
         else s\<lparr>st := (st s)\<lparr>counter_z := c\<rparr>\<rparr>)"

text \<open>Lines 280--311: one Bresenham step event.\<close>

definition step_event :: "config \<Rightarrow> plan_block_t \<Rightarrow> st_data_t \<Rightarrow> machine \<Rightarrow> machine" where
  "step_event cfg b d s =
     (let s1 = s\<lparr>st := (st s)\<lparr>counter_dist := counter_dist (st s) + dist_per_step d,
                              out_bits := direction_bits b,
                              execute_step := True\<rparr>\<rparr>;
          s2 = step_z cfg b (step_y cfg b (step_x cfg b s1))
      in s2\<lparr>st := (st s2)\<lparr>step_count := step_count (st s2) - 1,
                           out_bits := out_bits (st s2) XOR invert_mask s2\<rparr>\<rparr>)"

text \<open>Lines 275--313: the inverse time counter and the step decision.\<close>

definition isr_execute :: "config \<Rightarrow> machine \<Rightarrow> machine option" where
  "isr_execute cfg s =
     (case st_current_segment s of
        None \<Rightarrow> None
      | Some g \<Rightarrow>
          (let s1 = s\<lparr>st := (st s)\<lparr>counter_dist :=
                        counter_dist (st s) - dist_per_tick (segment_buffer s g)\<rparr>\<rparr>
           in if sint (counter_dist (st s1)) < 0 \<and> 0 < step_count (st s1)
              then (case st_current_data s1 of
                      None \<Rightarrow> None
                    | Some di \<Rightarrow>
                        (case pl_current_block s1 of
                           None \<Rightarrow> None
                         | Some b \<Rightarrow> Some (step_event cfg b (segment_data s1 di) s1)))
              else Some s1))"

text \<open>Lines 315--330: the end of a segment.\<close>

definition isr_complete :: "machine \<Rightarrow> machine option" where
  "isr_complete s =
     (if step_count (st s) = 0
      then (if phase_count (st s) = 0
            then (case st_current_segment s of
                    None \<Rightarrow> None
                  | Some g \<Rightarrow>
                      (let s1 = (if flag (segment_buffer s g) AND SEGMENT_END_OF_BLOCK \<noteq> 0
                                 then s\<lparr>plan_discard_calls := Suc (plan_discard_calls s),
                                        st := (st s)\<lparr>load_flag := LOAD_BLOCK\<rparr>\<rparr>
                                 else s\<lparr>st := (st s)\<lparr>load_flag := LOAD_SEGMENT\<rparr>\<rparr>);
                           s2 = s1\<lparr>segment_buffer_tail :=
                                    (if segment_buffer_tail s1 + 1 = SEGMENT_BUFFER_SIZE
                                     then 0 else segment_buffer_tail s1 + 1)\<rparr>
                       in Some (s2\<lparr>st := (st s2)\<lparr>phase_count := phase_count (st s2) - 1\<rparr>\<rparr>)))
            else Some (s\<lparr>st := (st s)\<lparr>phase_count := phase_count (st s) - 1\<rparr>\<rparr>))
      else Some s)"

text \<open>
  \<open>ISR(TIMER2_COMPA_vect)\<close> (lines 216--335). \<open>None\<close> is a \<open>NULL\<close> dereference;
  \<open>sei()\<close> has no effect on the modelled state.
\<close>

definition isr :: "config \<Rightarrow> planner \<Rightarrow> machine \<Rightarrow> machine option" where
  "isr cfg pl s =
     (if busy s then Some s
      else (case isr_load cfg pl ((isr_latch cfg s)\<lparr>busy := True\<rparr>) of
              Fault \<Rightarrow> None
            | Exit s1 \<Rightarrow> Some s1
            | Go s1 \<Rightarrow>
                (case isr_execute cfg s1 of
                   None \<Rightarrow> None
                 | Some s2 \<Rightarrow>
                     (case isr_complete s2 of
                        None \<Rightarrow> None
                      | Some s3 \<Rightarrow> Some (s3\<lparr>busy := False\<rparr>)))))"

text \<open>\<open>ISR(TIMER0_OVF_vect)\<close> (lines 341--345).\<close>

definition timer0_ovf :: "config \<Rightarrow> machine \<Rightarrow> machine" where
  "timer0_ovf cfg s =
     s\<lparr>STEPPING_PORT := (STEPPING_PORT s AND NOT (STEP_MASK cfg)) OR (invert_mask s AND STEP_MASK cfg),
       TCCR0B := 0\<rparr>"

section \<open>The segment preparer\<close>

text \<open>Lines 537--540: the step data of a new planner block.\<close>

definition new_block_data :: "config \<Rightarrow> plan_block_t \<Rightarrow> st_data_t \<Rightarrow> st_data_t" where
  "new_block_data cfg b d =
     (let spm = real (unat (step_event_count b)) / millimeters b
      in d\<lparr>step_events_remaining := real (unat (step_event_count b)),
            step_per_mm := spm,
            dist_per_step := word_of_int \<lceil>INV_TIME_MULTIPLIER cfg / spm\<rceil>,
            acceleration := spm * pl_acceleration b\<rparr>)"

text \<open>Lines 523--526: the step data carried over after the planner changed the block.\<close>

definition carry_block_data :: "st_data_t \<Rightarrow> st_data_t \<Rightarrow> st_data_t" where
  "carry_block_data prev d =
     d\<lparr>step_events_remaining := step_events_remaining prev,
       dist_per_step := dist_per_step prev,
       step_per_mm := step_per_mm prev,
       acceleration := acceleration prev\<rparr>"

text \<open>
  Lines 560--597: the velocity profile of a block, in millimeters. The result is
  \<open>(accelerate_until, decelerate_after, maximum_rate)\<close>; \<open>L\<close> is \<open>millimeters\<close>,
  \<open>v0\<close>, \<open>vn\<close> and \<open>ve\<close> are the squares of the entry, nominal and exit speed, and \<open>a\<close> is
  the acceleration of the block.
\<close>

definition velocity_profile :: "real \<Rightarrow> real \<Rightarrow> real \<Rightarrow> real \<Rightarrow> real \<Rightarrow> real \<times> real \<times> real" where
  "velocity_profile L v0 vn ve a =
     (if v0 = vn
      then (if ve = vn
            then (L, 0, sqrt vn)
            else (L, (vn - ve) / (2 * a), sqrt vn))
      else if ve = vn
      then (L - (vn - v0) / (2 * a), 0, sqrt vn)
      else (let intersection_dist = 0.5 * (L + (v0 - ve) / (2 * a))
            in if intersection_dist > 0
               then (if intersection_dist < L
                     then (let dec = (vn - ve) / (2 * a)
                           in if dec < intersection_dist
                              then (L - (vn - v0) / (2 * a), dec, sqrt vn)
                              else (L - intersection_dist, intersection_dist,
                                    sqrt (2 * a * intersection_dist + ve)))
                     else (L, L, sqrt v0))
               else (0, 0, sqrt ve)))"

text \<open>
  Lines 545--617: the rates and the profile of the block, converted to steps. \<open>nxt\<close> is
  the planner block after the one being prepared.
\<close>

definition exit_speed_sqr :: "plan_block_t option \<Rightarrow> real" where
  "exit_speed_sqr nxt = (case nxt of Some nb \<Rightarrow> entry_speed_sqr nb | None \<Rightarrow> 0)"

definition block_profile :: "plan_block_t \<Rightarrow> plan_block_t option \<Rightarrow> st_data_t \<Rightarrow> st_data_t" where
  "block_profile b nxt d =
     (let spm = step_per_mm d;
          er = (case nxt of Some nb \<Rightarrow> spm * sqrt (entry_speed_sqr nb) | None \<Rightarrow> 0)
      in (case velocity_profile (millimeters b) (entry_speed_sqr b) (nominal_speed_sqr b)
                 (exit_speed_sqr nxt) (pl_acceleration b) of
            (au, da, mr) \<Rightarrow>
              d\<lparr>current_rate := spm * sqrt (entry_speed_sqr b),
                exit_rate := er,
                maximum_rate := mr * spm,
                accelerate_until := au * spm,
                decelerate_after := da * spm\<rparr>))"

text \<open>
  Lines 506--619: a new planner block is fetched when none is being prepared. The
  function returns when the planner has no block.
\<close>

definition load_prep_block :: "config \<Rightarrow> planner \<Rightarrow> machine \<Rightarrow> machine flow" where
  "load_prep_block cfg pl s =
     (case pl_prep_block s of
        Some b \<Rightarrow> Go s
      | None \<Rightarrow>
          (case plan_get_block_by_index pl (pl_prep_index s) of
             None \<Rightarrow> Exit s
           | Some b \<Rightarrow>
               (let idx = (if st_data_prep_index s + 1 = SEGMENT_BUFFER_SIZE - 1
                           then 0 else st_data_prep_index s + 1);
                    nxt = plan_get_block_by_index pl (plan_next_block_index pl (pl_prep_index s));
                    s1 = s\<lparr>pl_prep_block := Some b,
                           SPINDLE_ENABLE_PORT :=
                             SPINDLE_ENABLE_PORT s XOR bit_mask (SPINDLE_ENABLE_BIT cfg),
                           st_data_prep_index := idx,
                           st_prep_data := Some (unat idx)\<rparr>
                in if pl_partial_block_flag s
                   then (case st_prep_data s of
                           None \<Rightarrow> Fault
                         | Some lp \<Rightarrow>
                             Go (s1\<lparr>pl_partial_block_flag := False,
                                    segment_data := (segment_data s)
                                      (unat idx := block_profile b nxt
                                         (carry_block_data (segment_data s lp)
                                            (segment_data s (unat idx))))\<rparr>))
                   else Go (s1\<lparr>segment_data := (segment_data s)
                                 (unat idx := block_profile b nxt
                                    (new_block_data cfg b (segment_data s (unat idx))))\<rparr>))))"

text \<open>
  Lines 628--658: the first stretch of a segment. The result is
  \<open>(steps_remaining, dt, current_rate)\<close>.
\<close>

definition segment_ramp :: "config \<Rightarrow> st_data_t \<Rightarrow> real \<times> real \<times> real" where
  "segment_ramp cfg d =
     (let DT = DT_SEGMENT cfg; ser = step_events_remaining d
      in if ser > accelerate_until d
         then (let sr = ser - (current_rate d * DT + acceleration d * (0.5 * DT * DT))
               in if sr < accelerate_until d
                  then (accelerate_until d,
                        2 * (ser - accelerate_until d) / (current_rate d + maximum_rate d),
                        maximum_rate d)
                  else (sr, DT, current_rate d + acceleration d * DT))
         else if ser \<le> decelerate_after d
         then (let sr = ser - (current_rate d * DT - acceleration d * (0.5 * DT * DT))
               in if sr > 0
                  then (sr, DT, current_rate d - acceleration d * DT)
                  else (0, 2 * ser / (current_rate d + exit_rate d), current_rate d))
         else (let sr = ser - maximum_rate d * DT
               in if sr < decelerate_after d
                  then (decelerate_after d, (ser - decelerate_after d) / maximum_rate d,
                        current_rate d)
                  else (sr, DT, current_rate d)))"

text \<open>Lines 669--679: the rest of an incomplete segment, cruising.\<close>

definition fill_cruise :: "config \<Rightarrow> st_data_t \<Rightarrow> real \<times> real \<times> real \<Rightarrow> real \<times> real \<times> real" where
  "fill_cruise cfg d x =
     (case x of (sr, dt, cr) \<Rightarrow>
        if sr > decelerate_after d
        then (let sr' = sr - cr * (DT_SEGMENT cfg - dt)
              in if sr' < decelerate_after d
                 then (decelerate_after d, dt + (sr - decelerate_after d) / maximum_rate d, cr)
                 else (sr', DT_SEGMENT cfg, cr))
        else (sr, dt, cr))"

text \<open>Lines 682--697: the rest of an incomplete segment, decelerating.\<close>

definition fill_decel :: "config \<Rightarrow> st_data_t \<Rightarrow> real \<times> real \<times> real \<Rightarrow> real \<times> real \<times> real" where
  "fill_decel cfg d x =
     (case x of (sr, dt, cr) \<Rightarrow>
        if sr > 0 \<and> sr \<le> decelerate_after d
        then (let dt_remainder = DT_SEGMENT cfg - dt;
                  sr' = sr - dt_remainder * (cr - 0.5 * acceleration d * dt_remainder)
              in if sr' > 0
                 then (sr', DT_SEGMENT cfg, cr - acceleration d * dt_remainder)
                 else (0, dt + 2 * sr / (cr + exit_rate d), cr))
        else (sr, dt, cr))"

text \<open>Lines 664--700.\<close>

definition segment_fill :: "config \<Rightarrow> st_data_t \<Rightarrow> real \<times> real \<times> real \<Rightarrow> real \<times> real \<times> real" where
  "segment_fill cfg d x =
     (case x of (sr, dt, cr) \<Rightarrow>
        if dt < DT_SEGMENT cfg \<and> sr > 0
        then fill_decel cfg d (fill_cruise cfg d (sr, dt, cr))
        else (sr, dt, cr))"

text \<open>
  Lines 714--724: the value assigned to \<open>n_step\<close>, before its conversion to
  \<open>uint8_t\<close>; \<open>sr\<close> is \<open>steps_remaining\<close>.
\<close>

definition segment_steps :: "st_data_t \<Rightarrow> real \<Rightarrow> int" where
  "segment_steps d sr =
     (if sr > 0 then \<lceil>step_events_remaining d\<rceil> - \<lceil>sr\<rceil> else \<lceil>step_events_remaining d\<rceil>)"

text \<open>Lines 711--730: the segment written into the slot \<open>seg\<close> of the ring buffer.\<close>

definition segment_emit :: "config \<Rightarrow> st_data_t \<Rightarrow> real \<Rightarrow> real \<Rightarrow> st_segment_t \<Rightarrow> st_segment_t" where
  "segment_emit cfg d sr dt seg =
     (let seg1 = seg\<lparr>dist_per_tick :=
                   word_of_int \<lceil>(step_events_remaining d - sr) / dt
                                   * (INV_TIME_MULTIPLIER cfg / ISR_TICKS_PER_SECOND cfg)\<rceil>\<rparr>
      in if sr > 0
         then seg1\<lparr>n_step := word_of_int (segment_steps d sr),
                   n_phase_tick :=
                     word_of_int \<lceil>(real_of_int \<lceil>sr\<rceil> - sr) * real (unat (dist_per_step d))\<rceil>\<rparr>
         else seg1\<lparr>n_step := word_of_int (segment_steps d sr),
                   n_phase_tick := 0,
                   flag := flag seg1 OR SEGMENT_END_OF_BLOCK\<rparr>)"

text \<open>
  The segment computed from the step data \<open>d\<close> of the block, and the step data after
  it (lines 628--733).
\<close>

definition prep_segment :: "config \<Rightarrow> st_data_t \<Rightarrow> st_segment_t \<Rightarrow> st_segment_t \<times> st_data_t" where
  "prep_segment cfg d seg =
     (case segment_fill cfg d (segment_ramp cfg d) of
        (sr, dt, cr) \<Rightarrow>
          (segment_emit cfg (d\<lparr>current_rate := cr\<rparr>) sr dt seg,
           d\<lparr>current_rate := cr, step_events_remaining := sr\<rparr>))"

text \<open>Lines 501--502: the slot at the head of the ring buffer is initialised.\<close>

definition init_prep_segment :: "machine \<Rightarrow> machine" where
  "init_prep_segment s =
     s\<lparr>segment_buffer := (segment_buffer s)
         (unat (segment_buffer_head s) :=
            (segment_buffer s (unat (segment_buffer_head s)))\<lparr>flag := SEGMENT_NOOP\<rparr>)\<rparr>"

text \<open>One pass through the body of the loop of \<open>st_prep_buffer\<close> (lines 500--741).\<close>

definition st_prep_iter :: "config \<Rightarrow> planner \<Rightarrow> machine \<Rightarrow> machine flow" where
  "st_prep_iter cfg pl s0 =
     (let h = unat (segment_buffer_head s0)
      in case load_prep_block cfg pl (init_prep_segment s0) of
           Fault \<Rightarrow> Fault
         | Exit s \<Rightarrow> Exit s
         | Go s2 \<Rightarrow>
             (case st_prep_data s2 of
                None \<Rightarrow> Fault
              | Some p \<Rightarrow>
                  (case prep_segment cfg (segment_data s2 p)
                          ((segment_buffer s2 h)\<lparr>st_data_index := st_data_prep_index s2\<rparr>) of
                     (seg, d') \<Rightarrow>
                       (let s3 = (if step_events_remaining d' > 0 then s2
                                  else s2\<lparr>pl_prep_index :=
                                            plan_next_block_index pl (pl_prep_index s2),
                                          pl_prep_block := None\<rparr>)
                        in Go (s3\<lparr>segment_buffer := (segment_buffer s3)(h := seg),
                                  segment_data := (segment_data s3)(p := d'),
                                  segment_buffer_head := segment_next_head s3,
                                  segment_next_head :=
                                    (if segment_next_head s3 + 1 = SEGMENT_BUFFER_SIZE
                                     then 0 else segment_next_head s3 + 1),
                                  SPINDLE_ENABLE_PORT :=
                                    SPINDLE_ENABLE_PORT s3
                                      XOR bit_mask (SPINDLE_ENABLE_BIT cfg)\<rparr>)))))"

text \<open>
  The loop of \<open>st_prep_buffer\<close> (line 498), with a bound on the number of passes. The
  result is the state at the return and the number of segments published; \<open>None\<close>
  stands for a \<open>NULL\<close> dereference or for a loop still running after the bound.
\<close>

fun st_prep_loop :: "nat \<Rightarrow> config \<Rightarrow> planner \<Rightarrow> machine \<Rightarrow> (machine \<times> nat) option" where
  "st_prep_loop 0 cfg pl s =
     (if segment_buffer_tail s \<noteq> segment_next_head s then None else Some (s, 0))"
| "st_prep_loop (Suc k) cfg pl s =
     (if segment_buffer_tail s \<noteq> segment_next_head s
      then (case st_prep_iter cfg pl s of
              Fault \<Rightarrow> None
            | Exit s' \<Rightarrow> Some (s', 0)
            | Go s' \<Rightarrow>
                (case st_prep_loop k cfg pl s' of
                   None \<Rightarrow> None
                 | Some (s'', n) \<Rightarrow> Some (s'', Suc n)))
      else Some (s, 0))"

text \<open>\<open>st_prep_buffer\<close> (lines 495--743).\<close>

definition st_prep_buffer :: "nat \<Rightarrow> config \<Rightarrow> planner \<Rightarrow> machine \<Rightarrow> (machine \<times> nat) option" where
  "st_prep_buffer fuel cfg pl s =
     (if sys_state s = STATE_QUEUED then Some (s, 0) else st_prep_loop fuel cfg pl s)"

text \<open>\<open>st_cycle_start\<close> (lines 398--405).\<close>

definition st_cycle_start :: "nat \<Rightarrow> config \<Rightarrow> planner \<Rightarrow> machine \<Rightarrow> machine option" where
  "st_cycle_start fuel cfg pl s =
     (if sys_state s = STATE_QUEUED
      then (case st_prep_buffer fuel cfg pl (s\<lparr>sys_state := STATE_CYCLE\<rparr>) of
              None \<Rightarrow> None
            | Some (s', n) \<Rightarrow> Some (st_wake_up cfg s'))
      else Some s)"

text \<open>\<open>st_get_prep_block_index\<close> (lines 746--750).\<close>

definition st_get_prep_block_index :: "machine \<Rightarrow> u8" where
  "st_get_prep_block_index s = pl_prep_index s"

text \<open>
  \<open>st_fetch_partial_block_parameters\<close> (lines 753--775). The two output parameters
  are passed in with the values their targets hold at the call and returned with the
  values they hold afterwards.
\<close>

definition st_fetch_partial_block_parameters ::
    "machine \<Rightarrow> u8 \<Rightarrow> real \<times> u8 \<Rightarrow> (machine \<times> real \<times> u8) option" where
  "st_fetch_partial_block_parameters s block_index out =
     (case pl_prep_block s of
        None \<Rightarrow> Some (s, out)
      | Some b \<Rightarrow>
          (case st_prep_data s of
             None \<Rightarrow> None
           | Some p \<Rightarrow>
               (let d = segment_data s p
                in Some (s\<lparr>pl_partial_block_flag := True, pl_prep_block := None\<rparr>,
                         step_events_remaining d / step_per_mm d,
                         if step_events_remaining d < decelerate_after d then 1 else 0))))"

section \<open>The profile table of the specification\<close>

text \<open>
  The seven shapes as the specification tabulates them, in millimeters:
  \<open>(accelerate_until, decelerate_after, maximum_rate)\<close> for a block of length \<open>L\<close>
  with squared entry, nominal and exit speeds \<open>v0\<close>, \<open>vn\<close>, \<open>ve\<close> and acceleration
  \<open>a\<close>, where \<open>intersection = (L + (v0 - ve) / 2a) / 2\<close>.
\<close>

definition spec_intersection :: "real \<Rightarrow> real \<Rightarrow> real \<Rightarrow> real \<Rightarrow> real" where
  "spec_intersection L v0 ve a = (L + (v0 - ve) / (2 * a)) / 2"

definition spec_velocity_profile :: "real \<Rightarrow> real \<Rightarrow> real \<Rightarrow> real \<Rightarrow> real \<Rightarrow> real \<times> real \<times> real" where
  "spec_velocity_profile L v0 vn ve a =
     (let i = spec_intersection L v0 ve a
      in if v0 = vn \<and> ve = vn then (L, 0, sqrt vn)
         else if v0 = vn \<and> ve < vn then (L, (vn - ve) / (2 * a), sqrt vn)
         else if v0 < vn \<and> ve = vn then (L - (vn - v0) / (2 * a), 0, sqrt vn)
         else if 0 < i \<and> i < L \<and> (vn - ve) / (2 * a) < i
              then (L - (vn - v0) / (2 * a), (vn - ve) / (2 * a), sqrt vn)
         else if 0 < i \<and> i < L \<and> (vn - ve) / (2 * a) \<ge> i
              then (L - i, i, sqrt (2 * a * i + ve))
         else if i \<ge> L then (L, L, sqrt v0)
         else (0, 0, sqrt ve))"

section \<open>A configuration and states for concrete runs\<close>

text \<open>
  A configuration with the customary values of the firmware: a 16 MHz clock, a step
  interrupt of 30 kHz, 100 acceleration ticks per second, the step pins on bits 2 to 4
  and the direction pins on bits 5 to 7 of the stepping port.
\<close>

definition example_config :: config where
  "example_config =
     \<lparr>ISR_TICKS_PER_SECOND = 30000, ACCELERATION_TICKS_PER_SECOND = 100,
      INV_TIME_MULTIPLIER = 10000000, F_CPU = 16000000,
      X_STEP_BIT = 2, Y_STEP_BIT = 3, Z_STEP_BIT = 4,
      X_DIRECTION_BIT = 5, Y_DIRECTION_BIT = 6, Z_DIRECTION_BIT = 7,
      STEP_MASK = 28, DIRECTION_MASK = 224,
      STEPPERS_DISABLE_BIT = 0, SPINDLE_ENABLE_BIT = 4, OCIE2A = 1, CS21 = 1,
      BITFLAG_INVERT_ST_ENABLE = 4, EXEC_CYCLE_STOP = 4, EXEC_ALARM = 32\<rparr>"

definition zero_data :: st_data_t where
  "zero_data =
     \<lparr>dist_per_step = 0, step_events_remaining = 0, accelerate_until = 0,
      decelerate_after = 0, current_rate = 0, maximum_rate = 0, exit_rate = 0,
      acceleration = 0, step_per_mm = 0\<rparr>"

definition zero_segment :: st_segment_t where
  "zero_segment = \<lparr>n_step = 0, n_phase_tick = 0, dist_per_tick = 0, st_data_index = 0, flag = 0\<rparr>"

text \<open>The state of the static variables at power-on: every variable is zero.\<close>

definition power_on :: machine where
  "power_on =
     \<lparr>st = \<lparr>counter_x = 0, counter_y = 0, counter_z = 0, counter_dist = 0,
             step_count = 0, phase_count = 0, execute_step = False,
             step_pulse_time = 0, out_bits = 0, load_flag = 0\<rparr>,
      segment_data = (\<lambda>i. zero_data),
      segment_buffer = (\<lambda>i. zero_segment),
      segment_buffer_tail = 0, segment_buffer_head = 0, segment_next_head = 0,
      busy = False,
      pl_current_block = None, st_current_segment = None, st_current_data = None,
      pl_prep_block = None, st_prep_data = None,
      pl_prep_index = 0, st_data_prep_index = 0, pl_partial_block_flag = False,
      sys_state = STATE_IDLE, sys_execute = 0, sys_position = (\<lambda>a. 0),
      sys_auto_start = False,
      settings_flags = 0, invert_mask = 0, pulse_microseconds = 30,
      stepper_idle_lock_time = 25,
      STEPPING_PORT = 0, STEPPERS_DISABLE_PORT = 0, SPINDLE_ENABLE_PORT = 0,
      TCNT0 = 0, TCCR0B = 0, TCNT2 = 0, TIMSK2 = 0, TCCR2B = 0,
      delay_ms_total = 0, plan_discard_calls = 0\<rparr>"

text \<open>
  A block of 100 steps along X over 10 mm, entered at its nominal speed, and a planner
  that holds this block alone.
\<close>

definition cruise_block :: plan_block_t where
  "cruise_block =
     \<lparr>direction_bits = 0, steps = (\<lambda>a. if a = X_AXIS then 100 else 0),
      step_event_count = 100, millimeters = 10, entry_speed_sqr = 10000,
      nominal_speed_sqr = 10000, pl_acceleration = 100\<rparr>"

definition cruise_planner :: planner where
  "cruise_planner =
     \<lparr>plan_get_block_by_index = (\<lambda>i. if i = 0 then Some cruise_block else None),
      plan_next_block_index = (\<lambda>i. i + 1),
      plan_get_current_block = Some cruise_block\<rparr>"

text \<open>The step interrupt, fired \<open>n\<close> times in a row.\<close>

fun isr_run :: "nat \<Rightarrow> config \<Rightarrow> planner \<Rightarrow> machine \<Rightarrow> machine option" where
  "isr_run 0 cfg pl s = Some s"
| "isr_run (Suc n) cfg pl s =
     (case isr cfg pl s of None \<Rightarrow> None | Some s' \<Rightarrow> isr_run n cfg pl s')"

text \<open>
  A block of two step events that moves X backwards by two steps and Y forwards by
  one, and a planner whose current block it is.
\<close>

definition back_block :: plan_block_t where
  "back_block =
     \<lparr>direction_bits = 32,
      steps = (\<lambda>a. if a = X_AXIS then 2 else if a = Y_AXIS then 1 else 0),
      step_event_count = 2, millimeters = 1, entry_speed_sqr = 0,
      nominal_speed_sqr = 100, pl_acceleration = 100\<rparr>"

definition back_planner :: planner where
  "back_planner =
     \<lparr>plan_get_block_by_index = (\<lambda>i. if i = 0 then Some back_block else None),
      plan_next_block_index = (\<lambda>i. i + 1),
      plan_get_current_block = Some back_block\<rparr>"

text \<open>
  The state after \<open>st_reset\<close> in a running cycle, with one segment in the ring buffer:
  two step events and three phase ticks, at 3 units per tick against 10 units per step.
\<close>

definition phase_segment :: st_segment_t where
  "phase_segment =
     \<lparr>n_step = 2, n_phase_tick = 3, dist_per_tick = 3, st_data_index = 0, flag = 0\<rparr>"

definition run0 :: machine where
  "run0 = (st_reset power_on)
     \<lparr>segment_buffer := (\<lambda>i. if i = 0 then phase_segment else zero_segment),
      segment_data := (\<lambda>i. if i = 0 then zero_data\<lparr>dist_per_step := 10\<rparr> else zero_data),
      segment_buffer_head := 1, segment_next_head := 2, sys_state := STATE_CYCLE\<rparr>"

text \<open>The states of the first five ticks of the step interrupt from \<open>run0\<close>.\<close>

definition run1 :: machine where
  "run1 = run0
     \<lparr>st_current_segment := Some 0, pl_current_block := Some back_block,
      st_current_data := Some 0,
      st := \<lparr>counter_x = 1, counter_y = 1, counter_z = 1, counter_dist = 7,
              step_count = 2, phase_count = 0, execute_step = True,
              step_pulse_time = 0, out_bits = 32, load_flag = 0\<rparr>\<rparr>"

definition run2 :: machine where
  "run2 = run1
     \<lparr>STEPPING_PORT := 32, TCCR0B := 2,
      st := (st run1)\<lparr>counter_dist := 4, execute_step := False\<rparr>\<rparr>"

definition run3 :: machine where
  "run3 = run2\<lparr>st := (st run2)\<lparr>counter_dist := 1\<rparr>\<rparr>"

definition run4 :: machine where
  "run4 = run3
     \<lparr>st := (st run3)\<lparr>counter_dist := 8, counter_x := 1, counter_y := 0, counter_z := 1,
                       step_count := 1, out_bits := 36, execute_step := True\<rparr>,
      sys_position := (\<lambda>a. if a = X_AXIS then - 1 else 0)\<rparr>"

definition run5 :: machine where
  "run5 = run4
     \<lparr>STEPPING_PORT := 36,
      st := (st run4)\<lparr>counter_dist := 5, execute_step := False\<rparr>\<rparr>"

text \<open>
  The last segment of a block in the ring buffer: one step event, flagged as the end
  of the block; and the states of the next two ticks of the step interrupt.
\<close>

definition last_segment :: st_segment_t where
  "last_segment =
     \<lparr>n_step = 1, n_phase_tick = 0, dist_per_tick = 10, st_data_index = 0, flag = 1\<rparr>"

definition drain0 :: machine where
  "drain0 = (st_reset power_on)
     \<lparr>segment_buffer := (\<lambda>i. if i = 0 then last_segment else zero_segment),
      segment_data := (\<lambda>i. if i = 0 then zero_data\<lparr>dist_per_step := 10\<rparr> else zero_data),
      segment_buffer_head := 1, segment_next_head := 2, sys_state := STATE_CYCLE\<rparr>"

definition drain1 :: machine where
  "drain1 = drain0
     \<lparr>st_current_segment := Some 0, pl_current_block := Some cruise_block,
      st_current_data := Some 0,
      st := \<lparr>counter_x = 50, counter_y = 50, counter_z = 50, counter_dist = 0,
              step_count = 1, phase_count = 0, execute_step = True,
              step_pulse_time = 0, out_bits = 0, load_flag = 0\<rparr>\<rparr>"

definition drain2 :: machine where
  "drain2 = drain1
     \<lparr>TCCR0B := 2, segment_buffer_tail := 1, plan_discard_calls := 1,
      sys_position := (\<lambda>a. if a = X_AXIS then 1 else 0),
      st := (st drain1)\<lparr>step_count := 0, phase_count := 255, out_bits := 4, load_flag := 2\<rparr>\<rparr>"

definition drain3 :: machine where
  "drain3 = drain2
     \<lparr>STEPPING_PORT := 4, sys_execute := 4, STEPPERS_DISABLE_PORT := 1, delay_ms_total := 25,
      st := (st drain2)\<lparr>execute_step := False\<rparr>\<rparr>"

text \<open>
  The passes of the loop body of \<open>st_prep_buffer\<close>, \<open>k\<close> of them taken one after the
  other, with the segments in the order they are published. The ring buffer bounds how
  many passes one call makes, not what a pass computes. \<open>None\<close>: a pass does not
  publish, because the planner has no block or a \<open>NULL\<close> pointer is dereferenced.
\<close>

fun prep_passes :: "nat \<Rightarrow> config \<Rightarrow> planner \<Rightarrow> machine \<Rightarrow> (machine \<times> st_segment_t list) option" where
  "prep_passes 0 cfg pl s = Some (s, [])"
| "prep_passes (Suc k) cfg pl s =
     (case st_prep_iter cfg pl s of
        Go s' \<Rightarrow>
          (case prep_passes k cfg pl s' of
             None \<Rightarrow> None
           | Some (s'', sgs) \<Rightarrow>
               Some (s'', segment_buffer s' (unat (segment_buffer_head s)) # sgs))
      | Exit s' \<Rightarrow> None
      | Fault \<Rightarrow> None)"

text \<open>The step data after a pass, from the step data \<open>d\<close> of the block.\<close>

definition next_data :: "config \<Rightarrow> st_data_t \<Rightarrow> st_data_t" where
  "next_data cfg d = snd (prep_segment cfg d zero_segment)"

text \<open>The step data of a fresh planner block \<open>b\<close> in the slot that held \<open>d\<close>.\<close>

definition fresh_block_data :: "config \<Rightarrow> planner \<Rightarrow> u8 \<Rightarrow> plan_block_t \<Rightarrow> st_data_t \<Rightarrow> st_data_t" where
  "fresh_block_data cfg pl i b d =
     block_profile b (plan_get_block_by_index pl (plan_next_block_index pl i))
       (new_block_data cfg b d)"

text \<open>The state after \<open>st_reset\<close>, in a running cycle, with an empty ring buffer.\<close>

definition prep0 :: machine where
  "prep0 = (st_reset power_on)\<lparr>sys_state := STATE_CYCLE\<rparr>"

text \<open>
  A block of one step along X over 1/32 mm, entered at its nominal speed of 15 mm/s
  (480 steps per second) with an acceleration of 3600 mm/s^2, the only block of the
  planner. The block decelerates to rest, and its length is the distance this takes:
  225 = 2 * 3600 / 32.
\<close>

definition rest_block :: plan_block_t where
  "rest_block =
     \<lparr>direction_bits = 0, steps = (\<lambda>a. if a = X_AXIS then 1 else 0),
      step_event_count = 1, millimeters = 1 / 32, entry_speed_sqr = 225,
      nominal_speed_sqr = 225, pl_acceleration = 3600\<rparr>"

definition rest_planner :: planner where
  "rest_planner =
     \<lparr>plan_get_block_by_index = (\<lambda>i. if i = 0 then Some rest_block else None),
      plan_next_block_index = (\<lambda>i. i + 1),
      plan_get_current_block = Some rest_block\<rparr>"

text \<open>
  The step data of this block at given \<open>(step_events_remaining, current_rate)\<close>, the
  seven such pairs that the passes of the preparer run through again and again, the step
  data before pass \<open>i\<close> (counted from 0), and the value that pass \<open>i\<close> assigns to
  \<open>n_step\<close>, before its conversion to \<open>uint8_t\<close>.
\<close>

definition rest_data :: "real \<times> real \<Rightarrow> st_data_t" where
  "rest_data x =
     \<lparr>dist_per_step = 312500, step_events_remaining = fst x, accelerate_until = 1,
      decelerate_after = 1, current_rate = snd x, maximum_rate = 480, exit_rate = 0,
      acceleration = 115200, step_per_mm = 32\<rparr>"

definition rest_cycle :: "(real \<times> real) list" where
  "rest_cycle =
     [(1, 480), (1 / 25, 96), (9 / 25, - 288), (49 / 25, - 672), (89 / 25, - 288),
      (97 / 25, 96), (73 / 25, 480)]"

definition rest_orbit :: "nat \<Rightarrow> st_data_t" where
  "rest_orbit i = rest_data (rest_cycle ! (i mod 7))"

definition rest_span :: "nat \<Rightarrow> int" where
  "rest_span i = segment_steps (rest_orbit i) (step_events_remaining (rest_orbit (Suc i)))"

text \<open>
  Scenario S2 of the specification: 300, 200 and 100 steps over 30 mm, from rest to a
  nominal speed of 200 mm/s and back to rest, the only block of the planner.
\<close>

definition trapezoid_block :: plan_block_t where
  "trapezoid_block =
     \<lparr>direction_bits = 0,
      steps = (\<lambda>a. if a = X_AXIS then 300 else if a = Y_AXIS then 200 else 100),
      step_event_count = 300, millimeters = 30, entry_speed_sqr = 0,
      nominal_speed_sqr = 40000, pl_acceleration = 100\<rparr>"

definition trapezoid_planner :: planner where
  "trapezoid_planner =
     \<lparr>plan_get_block_by_index = (\<lambda>i. if i = 0 then Some trapezoid_block else None),
      plan_next_block_index = (\<lambda>i. i + 1),
      plan_get_current_block = Some trapezoid_block\<rparr>"








text \<open>
  The ring of segments: the invariant of its three indices, and the number of segments
  between tail and head.
\<close>

definition ring_ok :: "machine \<Rightarrow> bool" where
  "ring_ok s =
     (segment_buffer_head s < SEGMENT_BUFFER_SIZE
      \<and> segment_buffer_tail s < SEGMENT_BUFFER_SIZE
      \<and> unat (segment_next_head s)
          = (unat (segment_buffer_head s) + 1) mod unat SEGMENT_BUFFER_SIZE)"

definition segment_count :: "machine \<Rightarrow> nat" where
  "segment_count s =
     (unat (segment_buffer_head s) + unat SEGMENT_BUFFER_SIZE - unat (segment_buffer_tail s))
       mod unat SEGMENT_BUFFER_SIZE"

text \<open>
  The states of the stepper core that its entry points produce from a reset, each with
  the number of segments published by the preparer and not yet released by the step
  interrupt: \<open>st_prep_buffer\<close> adds the segments it publishes, and a tick of the step
  interrupt that moves the tail releases one. The entry points are called one after
  the other, with any planner, and the rest of the firmware may change \<open>sys.state\<close>.
  An entry point that is preempted by an interrupt in mid-course is not among them.
\<close>

inductive reach :: "config \<Rightarrow> machine \<Rightarrow> nat \<Rightarrow> bool" for cfg :: config where
  reach_reset: "reach cfg (st_reset s) 0"
| reach_prep: "reach cfg s n \<Longrightarrow> st_prep_buffer fuel cfg pl s = Some (s', k)
               \<Longrightarrow> reach cfg s' (n + k)"
| reach_isr: "reach cfg s n \<Longrightarrow> isr cfg pl s = Some s'
              \<Longrightarrow> reach cfg s' (if segment_buffer_tail s' = segment_buffer_tail s
                                 then n else n - 1)"
| reach_wake_up: "reach cfg s n \<Longrightarrow> reach cfg (st_wake_up cfg s) n"
| reach_go_idle: "reach cfg s n \<Longrightarrow> reach cfg (st_go_idle cfg s) n"
| reach_feed_hold: "reach cfg s n \<Longrightarrow> reach cfg (st_feed_hold s) n"
| reach_reinitialize: "reach cfg s n \<Longrightarrow> reach cfg (st_cycle_reinitialize s) n"
| reach_fetch: "reach cfg s n \<Longrightarrow> st_fetch_partial_block_parameters s i out = Some (s', out')
                \<Longrightarrow> reach cfg s' n"
| reach_timer0: "reach cfg s n \<Longrightarrow> reach cfg (timer0_ovf cfg s) n"
| reach_sys_state: "reach cfg s n \<Longrightarrow> reach cfg (s\<lparr>sys_state := x\<rparr>) n"

text \<open>
  What the entry points of the core maintain, with \<open>n\<close> the number of published and
  not yet released segments: the ring invariant; \<open>n\<close> is the distance from tail to head;
  a segment is loaded in the step interrupt only while the buffer holds one; and
  \<open>st_prep_data\<close> is set whenever a block is being prepared or the partial-block flag
  is up.
\<close>

definition core_inv :: "machine \<Rightarrow> nat \<Rightarrow> bool" where
  "core_inv s n =
     (ring_ok s \<and> n = segment_count s
      \<and> (load_flag (st s) = LOAD_NOOP \<longrightarrow> segment_buffer_head s \<noteq> segment_buffer_tail s)
      \<and> (pl_prep_block s \<noteq> None \<or> pl_partial_block_flag s \<longrightarrow> st_prep_data s \<noteq> None))"

section \<open>Properties\<close>

subsection \<open>The segment duration\<close>

text \<open>
  C5. The claim: \<open>DT_SEGMENT\<close> is \<open>TICKS_PER_ACCEL_TICK / ISR_TICKS_PER_SECOND\<close>, that
  is \<open>1 / ACCELERATION_TICKS_PER_SECOND\<close> seconds. The macro of line 49 is the quotient
  \<open>ACCELERATION_TICKS_PER_SECOND / ISR_TICKS_PER_SECOND\<close> instead: with 100 acceleration
  ticks per second and a 30 kHz interrupt it is 1/300, where the claim gives 1/100.
\<close>

theorem DT_SEGMENT_example:
  "DT_SEGMENT example_config = 1 / 300 \<and> spec_DT_SEGMENT example_config = 1 / 100
   \<and> 1 / ACCELERATION_TICKS_PER_SECOND example_config = 1 / 100"
  by (simp add: DT_SEGMENT_def spec_DT_SEGMENT_def example_config_def)

subsection \<open>Fetching the parameters of a partially executed block\<close>

text \<open>
  C10. When no planner block is being prepared (\<open>pl_prep_block\<close> is \<open>NULL\<close>),
  \<open>st_fetch_partial_block_parameters\<close> returns with both output parameters as the caller
  passed them and with the whole state unchanged; in particular
  \<open>pl_partial_block_flag\<close> is not set.
\<close>

theorem fetch_partial_without_prep_block:
  "pl_prep_block s = None \<Longrightarrow>
   st_fetch_partial_block_parameters s block_index (mm, dec) = Some (s, mm, dec)"
  by (simp add: st_fetch_partial_block_parameters_def)

theorem fetch_partial_without_prep_block_witness:
  "pl_prep_block power_on = None
   \<and> st_fetch_partial_block_parameters power_on 0 (7, 1) = Some (power_on, 7, 1)"
proof -
  have h: "pl_prep_block power_on = None"
    by (simp add: power_on_def)
  show ?thesis
    using h fetch_partial_without_prep_block [OF h, of 0 7 1] by simp
qed

subsection \<open>The velocity profile of a block\<close>

lemma velocity_profile_table:
  assumes "0 < L" and "v0 \<le> vn" and "ve \<le> vn"
  shows "velocity_profile L v0 vn ve a = spec_velocity_profile L v0 vn ve a"
  using assms
  by (auto simp add: velocity_profile_def spec_velocity_profile_def spec_intersection_def Let_def)

text \<open>
  C6. For a fresh planner block \<open>b\<close> (no block being prepared, no partial-block flag)
  of positive length whose squared entry speed and squared exit speed do not exceed
  its squared nominal speed, the preparer loads the block and leaves in its step data
  the \<open>accelerate_until\<close>, \<open>decelerate_after\<close> and \<open>maximum_rate\<close> of the seven-case
  table of the specification, each multiplied by \<open>step_per_mm = step_event_count /
  millimeters\<close>. The exit speed is the entry speed of the next planner block, or zero
  when there is none.
\<close>

theorem profile_matches_table:
  assumes "pl_prep_block s = None" and "\<not> pl_partial_block_flag s"
    and "plan_get_block_by_index pl (pl_prep_index s) = Some b"
    and "plan_get_block_by_index pl (plan_next_block_index pl (pl_prep_index s)) = nxt"
    and "0 < millimeters b"
    and "entry_speed_sqr b \<le> nominal_speed_sqr b"
    and "exit_speed_sqr nxt \<le> nominal_speed_sqr b"
    and "spec_velocity_profile (millimeters b) (entry_speed_sqr b) (nominal_speed_sqr b)
           (exit_speed_sqr nxt) (pl_acceleration b) = (au, da, mr)"
  shows "\<exists>s' p. load_prep_block cfg pl s = Go s' \<and> st_prep_data s' = Some p
           \<and> pl_prep_block s' = Some b
           \<and> step_per_mm (segment_data s' p) = real (unat (step_event_count b)) / millimeters b
           \<and> accelerate_until (segment_data s' p) = au * step_per_mm (segment_data s' p)
           \<and> decelerate_after (segment_data s' p) = da * step_per_mm (segment_data s' p)
           \<and> maximum_rate (segment_data s' p) = mr * step_per_mm (segment_data s' p)"
proof -
  have vp: "velocity_profile (millimeters b) (entry_speed_sqr b) (nominal_speed_sqr b)
              (exit_speed_sqr nxt) (pl_acceleration b) = (au, da, mr)"
    using assms(5-8) by (simp add: velocity_profile_table)
  show ?thesis
    using assms(1-4) vp
    by (simp add: load_prep_block_def block_profile_def new_block_data_def Let_def)
qed

theorem profile_matches_table_witness:
  "pl_prep_block (st_reset power_on) = None \<and> \<not> pl_partial_block_flag (st_reset power_on)
   \<and> plan_get_block_by_index cruise_planner (pl_prep_index (st_reset power_on)) = Some cruise_block
   \<and> 0 < millimeters cruise_block
   \<and> entry_speed_sqr cruise_block \<le> nominal_speed_sqr cruise_block
   \<and> exit_speed_sqr None \<le> nominal_speed_sqr cruise_block
   \<and> spec_velocity_profile 10 10000 10000 0 100 = (10, 50, sqrt 10000)
   \<and> (\<exists>s' p. load_prep_block example_config cruise_planner (st_reset power_on) = Go s'
         \<and> st_prep_data s' = Some p
         \<and> step_per_mm (segment_data s' p) = 10
         \<and> accelerate_until (segment_data s' p) = 100
         \<and> decelerate_after (segment_data s' p) = 500
         \<and> maximum_rate (segment_data s' p) = sqrt 10000 * 10)"
proof -
  have h1: "pl_prep_block (st_reset power_on) = None"
    by (simp add: st_reset_def)
  have h2: "\<not> pl_partial_block_flag (st_reset power_on)"
    by (simp add: st_reset_def)
  have h3: "plan_get_block_by_index cruise_planner (pl_prep_index (st_reset power_on))
            = Some cruise_block"
    by (simp add: st_reset_def cruise_planner_def)
  have h4: "plan_get_block_by_index cruise_planner
              (plan_next_block_index cruise_planner (pl_prep_index (st_reset power_on))) = None"
    by (simp add: st_reset_def cruise_planner_def)
  have h5: "0 < millimeters cruise_block"
    by (simp add: cruise_block_def)
  have h6: "entry_speed_sqr cruise_block \<le> nominal_speed_sqr cruise_block"
    by (simp add: cruise_block_def)
  have h7: "exit_speed_sqr None \<le> nominal_speed_sqr cruise_block"
    by (simp add: cruise_block_def exit_speed_sqr_def)
  have h8: "spec_velocity_profile (millimeters cruise_block) (entry_speed_sqr cruise_block)
              (nominal_speed_sqr cruise_block) (exit_speed_sqr None) (pl_acceleration cruise_block)
            = (10, 50, sqrt 10000)"
    by (simp add: spec_velocity_profile_def spec_intersection_def cruise_block_def
        exit_speed_sqr_def)
  have h8': "spec_velocity_profile 10 10000 10000 0 100 = (10, 50, sqrt 10000)"
    using h8 by (simp add: cruise_block_def exit_speed_sqr_def)
  show ?thesis
    using h1 h2 h3 h5 h6 h7 h8'
      profile_matches_table [OF h1 h2 h3 h4 h5 h6 h7 h8, of example_config]
    by (auto simp add: cruise_block_def)
qed

subsection \<open>The step interrupt: frame lemmas and concrete runs\<close>

lemmas isr_defs = isr_def isr_latch_def isr_load_def isr_execute_def isr_complete_def
  step_event_def step_x_def step_y_def step_z_def st_go_idle_def
  LOAD_NOOP_def LOAD_BLOCK_def LOAD_SEGMENT_def SEGMENT_END_OF_BLOCK_def SEGMENT_BUFFER_SIZE_def
  bit_mask_def bit_istrue_def

lemmas run_defs = run0_def run1_def run2_def run3_def run4_def run5_def
  st_reset_def power_on_def back_planner_def back_block_def phase_segment_def
  zero_data_def example_config_def Let_def fun_eq_iff

lemmas drain_defs = drain0_def drain1_def drain2_def drain3_def
  st_reset_def power_on_def cruise_planner_def cruise_block_def last_segment_def
  zero_data_def example_config_def Let_def fun_eq_iff

lemma isr_run0: "isr example_config back_planner run0 = Some run1"
  by (simp add: isr_defs run_defs)





lemma isr_drain0: "isr example_config cruise_planner drain0 = Some drain1"
  by (simp add: isr_defs drain_defs)

lemma isr_drain1: "isr example_config cruise_planner drain1 = Some drain2"
  by (simp add: isr_defs drain_defs)

lemma isr_drain2: "isr example_config cruise_planner drain2 = Some drain3"
  by (simp add: isr_defs drain_defs)


















subsection \<open>Loading a segment\<close>

lemma isr_load_phase_count:
  "isr_load cfg pl s = Go s' \<Longrightarrow> phase_count (st s') = phase_count (st s)"
  by (auto simp add: isr_load_def Let_def split: if_splits option.splits)

text \<open>
  C3. The claim: on loading a segment the interrupt sets \<open>step_count\<close> to \<open>n_step\<close>
  and \<open>phase_count\<close> to \<open>n_phase_tick\<close>. The load phase (lines 241--263) assigns
  \<open>step_count\<close> only; \<open>phase_count\<close> is never written from the segment. From the
  state \<open>run0\<close>, whose segment at the tail has two steps and three phase ticks, the
  loading tick ends with \<open>step_count = 2\<close> and \<open>phase_count = 0\<close>, and the tail has
  not moved.
\<close>

theorem load_ignores_phase_ticks:
  "load_flag (st run0) \<noteq> LOAD_NOOP
   \<and> segment_buffer_head run0 \<noteq> segment_buffer_tail run0
   \<and> n_step (segment_buffer run0 (unat (segment_buffer_tail run0))) = 2
   \<and> n_phase_tick (segment_buffer run0 (unat (segment_buffer_tail run0))) = 3
   \<and> isr example_config back_planner run0 = Some run1
   \<and> segment_buffer_tail run1 = segment_buffer_tail run0
   \<and> step_count (st run1) = 2
   \<and> phase_count (st run1) = 0"
proof -
  have "load_flag (st run0) \<noteq> LOAD_NOOP
      \<and> segment_buffer_head run0 \<noteq> segment_buffer_tail run0
      \<and> n_step (segment_buffer run0 (unat (segment_buffer_tail run0))) = 2
      \<and> n_phase_tick (segment_buffer run0 (unat (segment_buffer_tail run0))) = 3
      \<and> segment_buffer_tail run1 = segment_buffer_tail run0
      \<and> step_count (st run1) = 2
      \<and> phase_count (st run1) = 0"
    by (simp add: run_defs LOAD_NOOP_def LOAD_BLOCK_def)
  then show ?thesis
    using isr_run0 by simp
qed

subsection \<open>The empty buffer\<close>

text \<open>
  C8, as the claim states it, fails: after the last step of the last segment
  (\<open>drain2\<close>, reached from \<open>drain0\<close> in two ticks) the interrupt finds the buffer empty
  with \<open>load_flag = LOAD_BLOCK\<close>. It returns with \<open>sys.state\<close> still \<open>STATE_CYCLE\<close>, not
  \<open>STATE_IDLE\<close>, and on its way it has written the pending step of the previous tick to
  the port (the X step pin, bit 2).
\<close>

theorem underrun_keeps_sys_state:
  "isr_run 2 example_config cruise_planner drain0 = Some drain2
   \<and> \<not> busy drain2 \<and> load_flag (st drain2) \<noteq> LOAD_NOOP
   \<and> segment_buffer_head drain2 = segment_buffer_tail drain2
   \<and> isr example_config cruise_planner drain2 = Some drain3
   \<and> sys_state drain2 = STATE_CYCLE \<and> sys_state drain3 = STATE_CYCLE
   \<and> sys_state drain3 \<noteq> STATE_IDLE
   \<and> STEPPING_PORT drain2 = 0 \<and> STEPPING_PORT drain3 = 4"
proof -
  have "isr_run 2 example_config cruise_planner drain0 = Some drain2"
    by (simp add: numeral_2_eq_2 isr_drain0 isr_drain1)
  moreover have "\<not> busy drain2 \<and> load_flag (st drain2) \<noteq> LOAD_NOOP
      \<and> segment_buffer_head drain2 = segment_buffer_tail drain2
      \<and> sys_state drain2 = STATE_CYCLE \<and> sys_state drain3 = STATE_CYCLE
      \<and> STEPPING_PORT drain2 = 0 \<and> STEPPING_PORT drain3 = 4"
    by (simp add: drain_defs LOAD_NOOP_def)
  ultimately show ?thesis
    using isr_drain2 by simp
qed

text \<open>
  C8, as the code has it. If the interrupt runs (not \<open>busy\<close>) with \<open>load_flag\<close> other
  than \<open>LOAD_NOOP\<close> and finds the ring buffer empty, then, after the deferred write of
  \<open>out_bits\<close> to the port when the previous tick flagged one, it calls \<open>st_go_idle\<close>,
  sets \<open>EXEC_CYCLE_STOP\<close> in \<open>sys.execute\<close> and returns. It leaves \<open>sys.state\<close> as it
  is (the change to the idle state is left to the foreground), the timer of the
  interrupt is stopped, and neither the tail, the Bresenham counters, the inverse time
  counter, the step and phase counts nor the position change.
\<close>

theorem underrun_goes_idle:
  assumes "\<not> busy s" and "load_flag (st s) \<noteq> LOAD_NOOP"
    and "segment_buffer_head s = segment_buffer_tail s"
  shows "\<exists>s'. isr cfg pl s = Some s'
           \<and> s' = (st_go_idle cfg ((isr_latch cfg s)\<lparr>busy := True\<rparr>))
                    \<lparr>sys_execute := sys_execute s OR EXEC_CYCLE_STOP cfg\<rparr>
           \<and> sys_execute s' = sys_execute s OR EXEC_CYCLE_STOP cfg
           \<and> sys_state s' = sys_state s
           \<and> TCCR2B s' = 0 \<and> \<not> busy s'
           \<and> segment_buffer_tail s' = segment_buffer_tail s
           \<and> segment_buffer_head s' = segment_buffer_head s
           \<and> counter_x (st s') = counter_x (st s)
           \<and> counter_y (st s') = counter_y (st s)
           \<and> counter_z (st s') = counter_z (st s)
           \<and> counter_dist (st s') = counter_dist (st s)
           \<and> step_count (st s') = step_count (st s)
           \<and> phase_count (st s') = phase_count (st s)
           \<and> load_flag (st s') = load_flag (st s)
           \<and> sys_position s' = sys_position s
           \<and> plan_discard_calls s' = plan_discard_calls s
           \<and> STEPPING_PORT s' =
               (if execute_step (st s)
                then (STEPPING_PORT s AND NOT (DIRECTION_MASK cfg OR STEP_MASK cfg))
                       OR out_bits (st s)
                else STEPPING_PORT s)"
  using assms
  by (simp add: isr_def isr_load_def isr_latch_def st_go_idle_def Let_def)

theorem underrun_goes_idle_witness:
  "\<not> busy drain2 \<and> load_flag (st drain2) \<noteq> LOAD_NOOP
   \<and> segment_buffer_head drain2 = segment_buffer_tail drain2
   \<and> (\<exists>s'. isr example_config cruise_planner drain2 = Some s'
         \<and> sys_execute s' = sys_execute drain2 OR EXEC_CYCLE_STOP example_config
         \<and> sys_state s' = sys_state drain2
         \<and> segment_buffer_tail s' = segment_buffer_tail drain2
         \<and> counter_dist (st s') = counter_dist (st drain2)
         \<and> sys_position s' = sys_position drain2)"
proof -
  have h1: "\<not> busy drain2"
    by (simp add: drain_defs)
  have h2: "load_flag (st drain2) \<noteq> LOAD_NOOP"
    by (simp add: drain_defs LOAD_NOOP_def)
  have h3: "segment_buffer_head drain2 = segment_buffer_tail drain2"
    by (simp add: drain_defs)
  from underrun_goes_idle [OF h1 h2 h3, of example_config cruise_planner]
  obtain s' where "isr example_config cruise_planner drain2 = Some s'"
    "sys_execute s' = sys_execute drain2 OR EXEC_CYCLE_STOP example_config"
    "sys_state s' = sys_state drain2"
    "segment_buffer_tail s' = segment_buffer_tail drain2"
    "counter_dist (st s') = counter_dist (st drain2)"
    "sys_position s' = sys_position drain2"
    by blast
  then show ?thesis
    using h1 h2 h3 by blast
qed

subsection \<open>Direction bits and the first step\<close>






subsection \<open>The passes of the preparer\<close>

lemma prep_segment_data:
  "snd (prep_segment cfg d seg) = next_data cfg d"
  by (simp add: prep_segment_def next_data_def split: prod.splits)

lemma prep_segment_n_step:
  "n_step (fst (prep_segment cfg d seg))
     = word_of_int (segment_steps d (step_events_remaining (next_data cfg d)))"
  by (simp add: prep_segment_def next_data_def segment_emit_def segment_steps_def Let_def
      split: prod.splits)

lemma prep_segment_flag:
  "flag (fst (prep_segment cfg d seg))
     = (if step_events_remaining (next_data cfg d) > 0 then flag seg
        else flag seg OR SEGMENT_END_OF_BLOCK)"
  by (simp add: prep_segment_def next_data_def segment_emit_def Let_def split: prod.splits)

lemma st_prep_iter_loaded:
  assumes "load_prep_block cfg pl (init_prep_segment s) = Go s2"
    and "st_prep_data s2 = Some p"
  shows "\<exists>s'. st_prep_iter cfg pl s = Go s'
           \<and> n_step (segment_buffer s' (unat (segment_buffer_head s)))
               = word_of_int (segment_steps (segment_data s2 p)
                   (step_events_remaining (next_data cfg (segment_data s2 p))))
           \<and> flag (segment_buffer s' (unat (segment_buffer_head s)))
               = (if step_events_remaining (next_data cfg (segment_data s2 p)) > 0
                  then SEGMENT_NOOP else SEGMENT_END_OF_BLOCK)
           \<and> segment_data s' p = next_data cfg (segment_data s2 p)
           \<and> st_prep_data s' = Some p
           \<and> pl_partial_block_flag s' = pl_partial_block_flag s2
           \<and> pl_prep_block s' =
               (if step_events_remaining (next_data cfg (segment_data s2 p)) > 0
                then pl_prep_block s2 else None)
           \<and> segment_buffer_head s' = segment_next_head s
           \<and> segment_next_head s' =
               (if segment_next_head s + 1 = SEGMENT_BUFFER_SIZE then 0
                else segment_next_head s + 1)
           \<and> segment_buffer_tail s' = segment_buffer_tail s"
proof -
  let ?h = "unat (segment_buffer_head s)"
  have f: "segment_buffer_head s2 = segment_buffer_head s"
    "segment_next_head s2 = segment_next_head s"
    "segment_buffer_tail s2 = segment_buffer_tail s"
    "flag (segment_buffer s2 ?h) = SEGMENT_NOOP"
    using assms(1)
    by (auto simp add: load_prep_block_def init_prep_segment_def Let_def
        split: option.splits if_splits)
  obtain sg d' where ps: "prep_segment cfg (segment_data s2 p)
      ((segment_buffer s2 ?h)\<lparr>st_data_index := st_data_prep_index s2\<rparr>) = (sg, d')"
    by (cases "prep_segment cfg (segment_data s2 p)
      ((segment_buffer s2 ?h)\<lparr>st_data_index := st_data_prep_index s2\<rparr>)") simp
  have d': "d' = next_data cfg (segment_data s2 p)"
    using prep_segment_data [of cfg "segment_data s2 p"
        "(segment_buffer s2 ?h)\<lparr>st_data_index := st_data_prep_index s2\<rparr>"] ps by simp
  have n: "n_step sg = word_of_int (segment_steps (segment_data s2 p)
             (step_events_remaining (next_data cfg (segment_data s2 p))))"
    using prep_segment_n_step [of cfg "segment_data s2 p"
        "(segment_buffer s2 ?h)\<lparr>st_data_index := st_data_prep_index s2\<rparr>"] ps by simp
  have fl: "flag sg = (if step_events_remaining (next_data cfg (segment_data s2 p)) > 0
                       then SEGMENT_NOOP else SEGMENT_END_OF_BLOCK)"
    using prep_segment_flag [of cfg "segment_data s2 p"
        "(segment_buffer s2 ?h)\<lparr>st_data_index := st_data_prep_index s2\<rparr>"] ps f(4)
    by (simp add: SEGMENT_NOOP_def)
  show ?thesis
    using assms ps d' n fl f
    by (simp add: st_prep_iter_def Let_def)
qed

lemma load_prep_block_present:
  assumes "pl_prep_block s = Some b"
  shows "load_prep_block cfg pl s = Go s"
  using assms by (simp add: load_prep_block_def)

lemma load_prep_block_fresh:
  assumes "pl_prep_block s = None" and "\<not> pl_partial_block_flag s"
    and "plan_get_block_by_index pl (pl_prep_index s) = Some b"
  shows "\<exists>s2 p. load_prep_block cfg pl s = Go s2 \<and> st_prep_data s2 = Some p
           \<and> pl_prep_block s2 = Some b \<and> \<not> pl_partial_block_flag s2
           \<and> segment_data s2 p = fresh_block_data cfg pl (pl_prep_index s) b (segment_data s p)"
  using assms by (simp add: load_prep_block_def fresh_block_data_def Let_def)

lemma fresh_block_data_remaining:
  "step_events_remaining (fresh_block_data cfg pl i b d) = real (unat (step_event_count b))"
  by (simp add: fresh_block_data_def block_profile_def new_block_data_def Let_def
      split: prod.splits)


lemma fresh_block_data_slot:
  "fresh_block_data cfg pl i b d = fresh_block_data cfg pl i b zero_data"
  by (simp add: fresh_block_data_def block_profile_def new_block_data_def zero_data_def Let_def
      split: prod.splits)

lemmas prep_defs = fresh_block_data_def block_profile_def new_block_data_def
  velocity_profile_def exit_speed_sqr_def next_data_def prep_segment_def segment_fill_def
  fill_cruise_def fill_decel_def segment_ramp_def segment_emit_def segment_steps_def
  DT_SEGMENT_def example_config_def zero_data_def zero_segment_def Let_def

lemma trapezoid_data0:
  "fresh_block_data example_config trapezoid_planner 0 trapezoid_block zero_data =
     \<lparr>dist_per_step = 1000000, step_events_remaining = 300, accelerate_until = 150,
      decelerate_after = 150, current_rate = 0, maximum_rate = sqrt 3000 * 10, exit_rate = 0,
      acceleration = 1000, step_per_mm = 10\<rparr>"
  by (simp add: prep_defs trapezoid_planner_def trapezoid_block_def)

lemma trapezoid_data1:
  "step_events_remaining (next_data example_config
     \<lparr>dist_per_step = 1000000, step_events_remaining = 300, accelerate_until = 150,
      decelerate_after = 150, current_rate = 0, maximum_rate = sqrt 3000 * 10, exit_rate = 0,
      acceleration = 1000, step_per_mm = 10\<rparr>) = 300 - 1 / 180"
  by (simp add: prep_defs)

lemma st_prep_iter_fresh:
  assumes "pl_prep_block s = None" and "\<not> pl_partial_block_flag s"
    and "plan_get_block_by_index pl (pl_prep_index s) = Some b"
    and "d = fresh_block_data cfg pl (pl_prep_index s) b zero_data"
  shows "\<exists>s'. st_prep_iter cfg pl s = Go s'
           \<and> n_step (segment_buffer s' (unat (segment_buffer_head s)))
               = word_of_int (segment_steps d (step_events_remaining (next_data cfg d)))
           \<and> flag (segment_buffer s' (unat (segment_buffer_head s)))
               = (if step_events_remaining (next_data cfg d) > 0
                  then SEGMENT_NOOP else SEGMENT_END_OF_BLOCK)
           \<and> segment_buffer_head s' = segment_next_head s"
proof -
  have i: "pl_prep_block (init_prep_segment s) = None"
    "\<not> pl_partial_block_flag (init_prep_segment s)"
    "plan_get_block_by_index pl (pl_prep_index (init_prep_segment s)) = Some b"
    using assms(1-3) by (simp_all add: init_prep_segment_def)
  from load_prep_block_fresh [OF i, of cfg]
  obtain s2 p where l: "load_prep_block cfg pl (init_prep_segment s) = Go s2"
    and p: "st_prep_data s2 = Some p"
    and d: "segment_data s2 p = d"
    using fresh_block_data_slot assms(4) by (auto simp add: init_prep_segment_def)
  from st_prep_iter_loaded [OF l p] d show ?thesis
    by auto
qed

lemma prep0_fresh:
  "pl_prep_block prep0 = None" "\<not> pl_partial_block_flag prep0" "pl_prep_index prep0 = 0"
  "segment_buffer_head prep0 = 0" "segment_next_head prep0 = 1"
  by (simp_all add: prep0_def st_reset_def)

subsection \<open>A block that is never finished\<close>

lemma sqrt_225: "sqrt 225 = 15"
  by (rule real_sqrt_unique) simp_all

lemma ceiling_small: "\<lceil>1 / 25 :: real\<rceil> = 1"
  by (rule ceiling_unique) simp_all

lemma rest_data0:
  "fresh_block_data example_config rest_planner 0 rest_block zero_data = rest_data (1, 480)"
  by (simp add: prep_defs rest_planner_def rest_block_def rest_data_def sqrt_225)

lemma rest_next:
  "next_data example_config (rest_data (1, 480)) = rest_data (1 / 25, 96)"
  "next_data example_config (rest_data (1 / 25, 96)) = rest_data (9 / 25, - 288)"
  "next_data example_config (rest_data (9 / 25, - 288)) = rest_data (49 / 25, - 672)"
  "next_data example_config (rest_data (49 / 25, - 672)) = rest_data (89 / 25, - 288)"
  "next_data example_config (rest_data (89 / 25, - 288)) = rest_data (97 / 25, 96)"
  "next_data example_config (rest_data (97 / 25, 96)) = rest_data (73 / 25, 480)"
  "next_data example_config (rest_data (73 / 25, 480)) = rest_data (1, 480)"
  by (simp_all add: prep_defs rest_data_def)

lemma rest_orbit_cases:
  obtains "i mod 7 = 0" | "i mod 7 = 1" | "i mod 7 = 2" | "i mod 7 = 3" | "i mod 7 = 4"
    | "i mod 7 = 5" | "i mod 7 = (6::nat)"
proof -
  have "i mod 7 = 0 \<or> i mod 7 = 1 \<or> i mod 7 = 2 \<or> i mod 7 = 3 \<or> i mod 7 = 4
      \<or> i mod 7 = 5 \<or> i mod 7 = 6"
    by presburger
  then show ?thesis
    by (elim disjE) (erule that)+
qed

lemma rest_orbit_Suc:
  "next_data example_config (rest_orbit i) = rest_orbit (Suc i)"
  by (cases i rule: rest_orbit_cases)
    (simp_all add: rest_orbit_def rest_cycle_def mod_Suc rest_next)

lemma rest_orbit_remaining:
  "0 < step_events_remaining (rest_orbit i)"
  by (cases i rule: rest_orbit_cases)
    (simp_all add: rest_orbit_def rest_cycle_def rest_data_def)

lemma rest_orbit_0:
  "rest_orbit 0 = rest_data (1, 480)"
  by (simp add: rest_orbit_def rest_cycle_def)

lemma rest_span_first:
  "rest_span 0 = 0" "rest_span (Suc 0) = 0" "rest_span 2 = - 1" "rest_span 3 = - 2"
  "rest_span 4 = 0"
  by (simp_all add: rest_span_def rest_orbit_def rest_cycle_def rest_data_def segment_steps_def
      ceiling_small)

lemma prep0_rest:
  "plan_get_block_by_index rest_planner (pl_prep_index prep0) = Some rest_block"
  by (simp add: prep0_fresh rest_planner_def)

lemma prep0_ring:
  "segment_buffer_tail prep0 = 0" "sys_state prep0 = STATE_CYCLE"
  by (simp_all add: prep0_def st_reset_def)

lemma rest_pass:
  assumes "pl_prep_block s = Some rest_block" and "st_prep_data s = Some p"
    and "segment_data s p = rest_orbit i"
  shows "\<exists>s'. st_prep_iter example_config rest_planner s = Go s'
           \<and> n_step (segment_buffer s' (unat (segment_buffer_head s))) = word_of_int (rest_span i)
           \<and> flag (segment_buffer s' (unat (segment_buffer_head s))) = SEGMENT_NOOP
           \<and> segment_data s' p = rest_orbit (Suc i)
           \<and> st_prep_data s' = Some p
           \<and> pl_prep_block s' = Some rest_block
           \<and> segment_buffer_head s' = segment_next_head s
           \<and> segment_next_head s' =
               (if segment_next_head s + 1 = SEGMENT_BUFFER_SIZE then 0
                else segment_next_head s + 1)
           \<and> segment_buffer_tail s' = segment_buffer_tail s"
proof -
  have pb: "pl_prep_block (init_prep_segment s) = Some rest_block"
    using assms(1) by (simp add: init_prep_segment_def)
  have l: "load_prep_block example_config rest_planner (init_prep_segment s)
             = Go (init_prep_segment s)"
    using load_prep_block_present [OF pb] .
  have q: "st_prep_data (init_prep_segment s) = Some p"
    "segment_data (init_prep_segment s) p = rest_orbit i"
    using assms(2,3) by (simp_all add: init_prep_segment_def)
  from st_prep_iter_loaded [OF l q(1)] q(2) pb show ?thesis
    by (auto simp add: rest_orbit_Suc rest_orbit_remaining rest_span_def)
qed

lemma rest_pass_fresh:
  "\<exists>s' p. st_prep_iter example_config rest_planner prep0 = Go s'
           \<and> n_step (segment_buffer s' (unat (segment_buffer_head prep0)))
               = word_of_int (rest_span 0)
           \<and> flag (segment_buffer s' (unat (segment_buffer_head prep0))) = SEGMENT_NOOP
           \<and> segment_data s' p = rest_orbit (Suc 0)
           \<and> st_prep_data s' = Some p
           \<and> pl_prep_block s' = Some rest_block
           \<and> segment_buffer_head s' = 1
           \<and> segment_next_head s' = 2
           \<and> segment_buffer_tail s' = 0"
proof -
  have i: "pl_prep_block (init_prep_segment prep0) = None"
    "\<not> pl_partial_block_flag (init_prep_segment prep0)"
    "plan_get_block_by_index rest_planner (pl_prep_index (init_prep_segment prep0))
       = Some rest_block"
    using prep0_fresh(1,2) prep0_rest by (simp_all add: init_prep_segment_def)
  from load_prep_block_fresh [OF i, of example_config]
  obtain s2 p where l: "load_prep_block example_config rest_planner (init_prep_segment prep0)
        = Go s2"
    and p: "st_prep_data s2 = Some p" and b: "pl_prep_block s2 = Some rest_block"
    and d: "segment_data s2 p = rest_orbit 0"
    using fresh_block_data_slot [of example_config rest_planner 0 rest_block]
    by (auto simp add: init_prep_segment_def prep0_fresh rest_orbit_0 rest_data0)
  from st_prep_iter_loaded [OF l p] d b show ?thesis
    by (auto simp add: rest_orbit_Suc rest_orbit_remaining rest_span_def prep0_fresh prep0_ring
        SEGMENT_BUFFER_SIZE_def)
qed

lemma upt_Suc_shift:
  "map f [0..<Suc k] = f 0 # map (\<lambda>j. f (Suc j)) [0..<k]"
proof -
  have "[0..<Suc k] = 0 # map Suc [0..<k]"
    by (simp add: upt_conv_Cons map_Suc_upt del: upt_Suc)
  then show ?thesis
    by (simp add: comp_def del: upt_Suc)
qed

lemma rest_passes_orbit:
  assumes "pl_prep_block s = Some rest_block" and "st_prep_data s = Some p"
    and "segment_data s p = rest_orbit i"
  shows "\<exists>s' sgs. prep_passes k example_config rest_planner s = Some (s', sgs)
           \<and> map flag sgs = replicate k SEGMENT_NOOP
           \<and> map n_step sgs = map (\<lambda>j. word_of_int (rest_span (i + j))) [0..<k]"
  using assms
proof (induction k arbitrary: s i)
  case 0
  then show ?case by simp
next
  case (Suc k)
  from rest_pass [OF Suc.prems]
  obtain s1 where it: "st_prep_iter example_config rest_planner s = Go s1"
    and n: "n_step (segment_buffer s1 (unat (segment_buffer_head s))) = word_of_int (rest_span i)"
    and fl: "flag (segment_buffer s1 (unat (segment_buffer_head s))) = SEGMENT_NOOP"
    and d: "segment_data s1 p = rest_orbit (Suc i)" and p: "st_prep_data s1 = Some p"
    and b: "pl_prep_block s1 = Some rest_block"
    by blast
  from Suc.IH [OF b p d]
  obtain s' sgs where r: "prep_passes k example_config rest_planner s1 = Some (s', sgs)"
    and fs: "map flag sgs = replicate k SEGMENT_NOOP"
    and ns: "map n_step sgs = map (\<lambda>j. word_of_int (rest_span (Suc i + j))) [0..<k]"
    by blast
  let ?sg = "segment_buffer s1 (unat (segment_buffer_head s))"
  have "prep_passes (Suc k) example_config rest_planner s = Some (s', ?sg # sgs)"
    using it r by simp
  moreover have "map flag (?sg # sgs) = replicate (Suc k) SEGMENT_NOOP"
    using fl fs by simp
  moreover have "map n_step (?sg # sgs)
      = map (\<lambda>j. word_of_int (rest_span (i + j))) [0..<Suc k]"
    using n ns by (simp only: upt_Suc_shift) simp
  ultimately show ?case
    by blast
qed

lemma rest_passes:
  "\<exists>s' sgs. prep_passes k example_config rest_planner prep0 = Some (s', sgs)
     \<and> map flag sgs = replicate k SEGMENT_NOOP
     \<and> map n_step sgs = map (\<lambda>j. word_of_int (rest_span j)) [0..<k]"
proof (cases k)
  case 0
  then show ?thesis by simp
next
  case (Suc m)
  from rest_pass_fresh
  obtain s1 p where it: "st_prep_iter example_config rest_planner prep0 = Go s1"
    and n: "n_step (segment_buffer s1 (unat (segment_buffer_head prep0)))
              = word_of_int (rest_span 0)"
    and fl: "flag (segment_buffer s1 (unat (segment_buffer_head prep0))) = SEGMENT_NOOP"
    and d: "segment_data s1 p = rest_orbit (Suc 0)" and p: "st_prep_data s1 = Some p"
    and b: "pl_prep_block s1 = Some rest_block"
    by blast
  from rest_passes_orbit [OF b p d, of m]
  obtain s' sgs where r: "prep_passes m example_config rest_planner s1 = Some (s', sgs)"
    and fs: "map flag sgs = replicate m SEGMENT_NOOP"
    and ns: "map n_step sgs = map (\<lambda>j. word_of_int (rest_span (Suc 0 + j))) [0..<m]"
    by blast
  let ?sg = "segment_buffer s1 (unat (segment_buffer_head prep0))"
  have "prep_passes (Suc m) example_config rest_planner prep0 = Some (s', ?sg # sgs)"
    using it r by simp
  moreover have "map flag (?sg # sgs) = replicate (Suc m) SEGMENT_NOOP"
    using fl fs by simp
  moreover have "map n_step (?sg # sgs) = map (\<lambda>j. word_of_int (rest_span j)) [0..<Suc m]"
    using n ns by (simp only: upt_Suc_shift) simp
  ultimately show ?thesis
    using Suc by blast
qed

lemma rest_sum:
  "(\<Sum>j\<leftarrow>[0..<k]. unat (word_of_int (rest_span j) :: u8)) \<noteq> 1"
proof (cases "k \<le> 2")
  case True
  then consider "k = 0" | "k = 1" | "k = 2"
    by linarith
  then show ?thesis
    by cases (simp_all add: upt_rec rest_span_first)
next
  case False
  then have "2 \<in> set [0..<k]"
    by simp
  then have "unat (word_of_int (rest_span 2) :: u8)
      \<in> set (map (\<lambda>j. unat (word_of_int (rest_span j) :: u8)) [0..<k])"
    by (simp only: set_map) (rule imageI)
  then have "unat (word_of_int (rest_span 2) :: u8)
      \<le> (\<Sum>j\<leftarrow>[0..<k]. unat (word_of_int (rest_span j) :: u8))"
    by (rule member_le_sum_list) simp_all
  moreover have "(- 1 :: u8) = 255"
    by simp
  then have "unat (- 1 :: u8) = 255"
    by (simp only:) simp
  ultimately show ?thesis
    by (simp add: rest_span_first)
qed

lemma rest_first_call:
  "\<exists>s' sgs. st_prep_buffer 5 example_config rest_planner prep0 = Some (s', 5)
     \<and> prep_passes 5 example_config rest_planner prep0 = Some (s', sgs)
     \<and> pl_prep_block s' = Some rest_block
     \<and> map flag sgs = replicate 5 SEGMENT_NOOP
     \<and> map n_step sgs = [0, 0, 255, 254, 0]"
proof -
  from rest_pass_fresh
  obtain s1 p where it0: "st_prep_iter example_config rest_planner prep0 = Go s1"
    and d1: "segment_data s1 p = rest_orbit (Suc 0)" and p1: "st_prep_data s1 = Some p"
    and b1: "pl_prep_block s1 = Some rest_block"
    and r1: "segment_next_head s1 = 2" "segment_buffer_tail s1 = 0"
    by blast
  from rest_pass [OF b1 p1 d1]
  obtain s2 where it1: "st_prep_iter example_config rest_planner s1 = Go s2"
    and d2: "segment_data s2 p = rest_orbit (Suc (Suc 0))" and p2: "st_prep_data s2 = Some p"
    and b2: "pl_prep_block s2 = Some rest_block"
    and r2: "segment_next_head s2 = 3" "segment_buffer_tail s2 = 0"
    by (auto simp add: r1 SEGMENT_BUFFER_SIZE_def)
  from rest_pass [OF b2 p2 d2]
  obtain s3 where it2: "st_prep_iter example_config rest_planner s2 = Go s3"
    and d3: "segment_data s3 p = rest_orbit (Suc (Suc (Suc 0)))" and p3: "st_prep_data s3 = Some p"
    and b3: "pl_prep_block s3 = Some rest_block"
    and r3: "segment_next_head s3 = 4" "segment_buffer_tail s3 = 0"
    by (auto simp add: r2 SEGMENT_BUFFER_SIZE_def)
  from rest_pass [OF b3 p3 d3]
  obtain s4 where it3: "st_prep_iter example_config rest_planner s3 = Go s4"
    and d4: "segment_data s4 p = rest_orbit (Suc (Suc (Suc (Suc 0))))"
    and p4: "st_prep_data s4 = Some p"
    and b4: "pl_prep_block s4 = Some rest_block"
    and r4: "segment_next_head s4 = 5" "segment_buffer_tail s4 = 0"
    by (auto simp add: r3 SEGMENT_BUFFER_SIZE_def)
  from rest_pass [OF b4 p4 d4]
  obtain s5 where it4: "st_prep_iter example_config rest_planner s4 = Go s5"
    and b5: "pl_prep_block s5 = Some rest_block"
    and r5: "segment_next_head s5 = 0" "segment_buffer_tail s5 = 0"
    by (auto simp add: r4 SEGMENT_BUFFER_SIZE_def)
  have five: "(5::nat) = Suc (Suc (Suc (Suc (Suc 0))))"
    by simp
  have loop: "st_prep_loop (Suc (Suc (Suc (Suc (Suc 0))))) example_config rest_planner prep0
      = Some (s5, Suc (Suc (Suc (Suc (Suc 0)))))"
    by (simp add: it0 it1 it2 it3 it4 r1 r2 r3 r4 r5 prep0_fresh prep0_ring)
  have call: "st_prep_buffer 5 example_config rest_planner prep0 = Some (s5, 5)"
    unfolding st_prep_buffer_def using loop by (simp add: prep0_ring five [symmetric])
  from rest_passes [of 5]
  obtain s' sgs where r: "prep_passes 5 example_config rest_planner prep0 = Some (s', sgs)"
    and fs: "map flag sgs = replicate 5 SEGMENT_NOOP"
    and ns: "map n_step sgs = map (\<lambda>j. word_of_int (rest_span j)) [0..<5]"
    by blast
  have "\<exists>sgs'. prep_passes (Suc (Suc (Suc (Suc (Suc 0))))) example_config rest_planner prep0
      = Some (s5, sgs')"
    by (simp add: it0 it1 it2 it3 it4)
  then have s': "s' = s5"
    using r by (simp only: five [symmetric]) simp
  have "[0..<5] = [0, Suc 0, 2, 3, 4 :: nat]"
    by (simp add: upt_rec)
  then have "map n_step sgs = [0, 0, 255, 254, 0]"
    using ns by (simp add: rest_span_first)
  then show ?thesis
    using call r fs s' b5 by simp
qed

text \<open>
  A pass through the deceleration branch (lines 642--646) that starts
  \<open>current_rate^2 / (2 * acceleration)\<close> steps before the end, the distance in which
  the rate falls to zero, leaves \<open>(current_rate - acceleration * DT_SEGMENT)^2 /
  (2 * acceleration)\<close> steps. Unless the rate is exactly \<open>acceleration * DT_SEGMENT\<close>,
  this is more than zero, the test of line 645 takes the pass for a complete
  deceleration, and the next pass starts in the same relation of distance and rate, at a
  rate that may be negative.
\<close>

lemma decel_pass_remaining:
  assumes "0 < acceleration d"
    and "step_events_remaining d = (current_rate d)\<^sup>2 / (2 * acceleration d)"
    and "step_events_remaining d \<le> accelerate_until d"
    and "step_events_remaining d \<le> decelerate_after d"
    and "current_rate d \<noteq> acceleration d * DT_SEGMENT cfg"
  shows "step_events_remaining (next_data cfg d)
           = (current_rate d - acceleration d * DT_SEGMENT cfg)\<^sup>2 / (2 * acceleration d)"
    and "0 < step_events_remaining (next_data cfg d)"
    and "current_rate (next_data cfg d) = current_rate d - acceleration d * DT_SEGMENT cfg"
proof -
  let ?a = "acceleration d" and ?cr = "current_rate d" and ?T = "DT_SEGMENT cfg"
  let ?sr = "step_events_remaining d - (?cr * ?T - ?a * (0.5 * ?T * ?T))"
  have e: "?sr = (?cr - ?a * ?T)\<^sup>2 / (2 * ?a)"
    using assms(1) by (simp add: assms(2) power2_eq_square field_simps)
  have "0 < (?cr - ?a * ?T)\<^sup>2"
    using assms(5) by simp
  then have pos: "0 < ?sr"
    using assms(1) by (simp only: e) simp
  have r: "segment_ramp cfg d = (?sr, ?T, ?cr - ?a * ?T)"
    using assms(3,4) pos by (simp add: segment_ramp_def Let_def)
  have n: "next_data cfg d = d\<lparr>current_rate := ?cr - ?a * ?T, step_events_remaining := ?sr\<rparr>"
    by (simp add: next_data_def prep_segment_def segment_fill_def r)
  show "step_events_remaining (next_data cfg d) = (?cr - ?a * ?T)\<^sup>2 / (2 * ?a)"
    using e by (simp add: n)
  show "0 < step_events_remaining (next_data cfg d)"
    using pos by (simp add: n)
  show "current_rate (next_data cfg d) = ?cr - ?a * ?T"
    by (simp add: n)
qed

lemma decel_pass_remaining_rest_block:
  "step_events_remaining (next_data example_config (rest_data (1, 480))) = 1 / 25
   \<and> current_rate (next_data example_config (rest_data (1, 480))) = 96"
  using decel_pass_remaining [of "rest_data (1, 480)" example_config]
  by (simp add: rest_data_def DT_SEGMENT_def example_config_def power2_eq_square)

text \<open>
  C1. The claim: the \<open>n_step\<close> of the segments that the preparer emits for a planner
  block add up to the \<open>step_event_count\<close> of the block, the last of them being the
  segment flagged \<open>SEGMENT_END_OF_BLOCK\<close>. The code does not do this for the block of
  one step that decelerates to rest. The block is within the planner contract (its entry
  speed is the speed from which its acceleration brings it to rest over its length, and
  does not exceed its nominal speed) and starts at 480 steps per second, against 30000
  ticks per second; the preparer starts it with \<open>step_events_remaining =
  step_event_count = 1\<close>. However many passes of the preparer are made, every segment
  published is flagged \<open>SEGMENT_NOOP\<close>, none \<open>SEGMENT_END_OF_BLOCK\<close>, and the
  \<open>n_step\<close> published so far do not add up to 1. The first call of \<open>st_prep_buffer\<close>
  makes five passes, leaves the block in preparation, and publishes the \<open>n_step\<close> 0, 0,
  255, 254 and 0: its third pass assigns -1 and its fourth -2.
\<close>

theorem block_to_rest_never_ends:
  "pl_prep_block prep0 = None \<and> \<not> pl_partial_block_flag prep0
   \<and> plan_get_block_by_index rest_planner (pl_prep_index prep0) = Some rest_block
   \<and> plan_get_block_by_index rest_planner
        (plan_next_block_index rest_planner (pl_prep_index prep0)) = None
   \<and> entry_speed_sqr rest_block = 2 * pl_acceleration rest_block * millimeters rest_block
   \<and> entry_speed_sqr rest_block \<le> nominal_speed_sqr rest_block
   \<and> current_rate (fresh_block_data example_config rest_planner (pl_prep_index prep0)
        rest_block zero_data) = 480
   \<and> step_events_remaining (fresh_block_data example_config rest_planner (pl_prep_index prep0)
        rest_block zero_data) = real (unat (step_event_count rest_block))
   \<and> unat (step_event_count rest_block) = 1
   \<and> (\<forall>k. \<exists>s' sgs. prep_passes k example_config rest_planner prep0 = Some (s', sgs)
          \<and> length sgs = k
          \<and> map flag sgs = replicate k SEGMENT_NOOP
          \<and> (\<Sum>sg\<leftarrow>sgs. unat (n_step sg)) \<noteq> unat (step_event_count rest_block))
   \<and> (\<exists>s' sgs. st_prep_buffer 5 example_config rest_planner prep0 = Some (s', 5)
          \<and> prep_passes 5 example_config rest_planner prep0 = Some (s', sgs)
          \<and> pl_prep_block s' = Some rest_block
          \<and> map flag sgs = replicate 5 SEGMENT_NOOP
          \<and> map n_step sgs = [0, 0, 255, 254, 0])
   \<and> rest_span 2 = - 1 \<and> rest_span 3 = - 2"
proof -
  have a: "\<exists>s' sgs. prep_passes k example_config rest_planner prep0 = Some (s', sgs)
          \<and> length sgs = k
          \<and> map flag sgs = replicate k SEGMENT_NOOP
          \<and> (\<Sum>sg\<leftarrow>sgs. unat (n_step sg)) \<noteq> unat (step_event_count rest_block)" for k
  proof -
    from rest_passes [of k]
    obtain s' sgs where r: "prep_passes k example_config rest_planner prep0 = Some (s', sgs)"
      and fs: "map flag sgs = replicate k SEGMENT_NOOP"
      and ns: "map n_step sgs = map (\<lambda>j. word_of_int (rest_span j)) [0..<k]"
      by blast
    have "length (map flag sgs) = k"
      by (simp only: fs length_replicate)
    then have len: "length sgs = k"
      by simp
    have "(\<Sum>sg\<leftarrow>sgs. unat (n_step sg)) = sum_list (map unat (map n_step sgs))"
      by (simp add: comp_def)
    also have "\<dots> = (\<Sum>j\<leftarrow>[0..<k]. unat (word_of_int (rest_span j) :: u8))"
      by (simp only: ns map_map comp_def)
    finally have "(\<Sum>sg\<leftarrow>sgs. unat (n_step sg)) \<noteq> 1"
      using rest_sum [of k] by simp
    then show ?thesis
      using r fs len by (auto simp add: rest_block_def)
  qed
  have c: "plan_get_block_by_index rest_planner
        (plan_next_block_index rest_planner (pl_prep_index prep0)) = None"
    by (simp add: prep0_fresh rest_planner_def)
  have d: "entry_speed_sqr rest_block = 2 * pl_acceleration rest_block * millimeters rest_block"
    "entry_speed_sqr rest_block \<le> nominal_speed_sqr rest_block"
    "unat (step_event_count rest_block) = 1"
    by (simp_all add: rest_block_def)
  have e: "current_rate (fresh_block_data example_config rest_planner (pl_prep_index prep0)
        rest_block zero_data) = 480"
    by (simp add: prep0_fresh rest_data0 rest_data_def)
  have f: "step_events_remaining (fresh_block_data example_config rest_planner
        (pl_prep_index prep0) rest_block zero_data) = real (unat (step_event_count rest_block))"
    by (rule fresh_block_data_remaining)
  show ?thesis
    by (intro conjI allI)
      (rule prep0_fresh(1,2) prep0_rest a rest_first_call c d e f rest_span_first(3,4))+
qed

subsection \<open>Segments without steps\<close>

text \<open>
  C4. The claim: every published segment has an \<open>n_step\<close> from 1 to 255. The file
  declares \<open>MINIMUM_STEPS_PER_SEGMENT\<close> as 1 and never uses it. For scenario S2 of the
  specification, a block entered at rest, the first pass of the preparer publishes a
  segment (the head moves on) whose \<open>n_step\<close> is 0: in 1/300 s the block advances
  by 1/180 of a step.
\<close>

theorem first_segment_without_steps:
  "pl_prep_block prep0 = None \<and> segment_buffer_head prep0 = 0
   \<and> plan_get_block_by_index trapezoid_planner (pl_prep_index prep0) = Some trapezoid_block
   \<and> (\<exists>s'. st_prep_iter example_config trapezoid_planner prep0 = Go s'
         \<and> segment_buffer_head s' = 1
         \<and> n_step (segment_buffer s' 0) = 0
         \<and> unat (n_step (segment_buffer s' 0)) < MINIMUM_STEPS_PER_SEGMENT)"
proof -
  have h3: "plan_get_block_by_index trapezoid_planner (pl_prep_index prep0)
              = Some trapezoid_block"
    by (simp add: prep0_fresh trapezoid_planner_def)
  from st_prep_iter_fresh [OF prep0_fresh(1,2) h3 refl, of example_config]
  obtain s' where "st_prep_iter example_config trapezoid_planner prep0 = Go s'"
    "n_step (segment_buffer s' 0) = 0" "segment_buffer_head s' = 1"
    by (auto simp add: prep0_fresh trapezoid_data0 trapezoid_data1 segment_steps_def)
  then show ?thesis
    using prep0_fresh(1,4) h3 by (auto simp add: MINIMUM_STEPS_PER_SEGMENT_def)
qed

subsection \<open>The Bresenham tracer\<close>




lemma isr_execute_step_event:
  assumes "st_current_segment s = Some g" and "st_current_data s = Some di"
    and "pl_current_block s = Some b"
    and "sint (counter_dist (st s) - dist_per_tick (segment_buffer s g)) < 0"
    and "0 < step_count (st s)"
  shows "isr_execute cfg s =
         Some (step_event cfg b (segment_data s di)
                 (s\<lparr>st := (st s)\<lparr>counter_dist :=
                     counter_dist (st s) - dist_per_tick (segment_buffer s g)\<rparr>\<rparr>))"
  using assms by (simp add: isr_execute_def Let_def)



lemma step_x_effect:
  "step_x cfg b s =
     (let c = counter_x (st s) - steps b X_AXIS
      in if sint c < 0
         then s\<lparr>st := (st s)\<lparr>counter_x := c + step_event_count b,
                             out_bits := out_bits (st s) OR bit_mask (X_STEP_BIT cfg)\<rparr>,
                sys_position := (sys_position s)
                  (X_AXIS := (if (out_bits (st s) OR bit_mask (X_STEP_BIT cfg))
                                    AND bit_mask (X_DIRECTION_BIT cfg) \<noteq> 0
                              then sys_position s X_AXIS - 1 else sys_position s X_AXIS + 1))\<rparr>
         else s\<lparr>st := (st s)\<lparr>counter_x := c\<rparr>\<rparr>)"
  by (simp add: step_x_def Let_def)







subsection \<open>The ring of segments\<close>

lemma u8_below_6:
  assumes "(w::u8) < 6"
  shows "w = 0 \<or> w = 1 \<or> w = 2 \<or> w = 3 \<or> w = 4 \<or> w = 5"
proof -
  have "unat w < 6"
    using assms by (simp add: word_less_nat_alt)
  then have "unat w = 0 \<or> unat w = 1 \<or> unat w = 2 \<or> unat w = 3 \<or> unat w = 4 \<or> unat w = 5"
    by linarith
  then show ?thesis
    by (simp add: word_unat_eq_iff)
qed

lemma u8_next_below_6:
  assumes "(h::u8) < 6" and "unat (nh::u8) = (unat h + 1) mod 6"
  shows "nh = (if h + 1 = 6 then 0 else h + 1)"
  using u8_below_6 [OF assms(1)] assms(2)
  by (elim disjE; hypsubst; simp add: word_unat_eq_iff)

lemma ring_publish:
  assumes "(h::u8) < 6" and "(t::u8) < 6" and "unat (nh::u8) = (unat h + 1) mod 6"
    and "t \<noteq> nh"
  shows "nh < 6 \<and> unat (if nh + 1 = 6 then 0 else nh + 1) = (unat nh + 1) mod 6
         \<and> (unat nh + 6 - unat t) mod 6 = (unat h + 6 - unat t) mod 6 + 1
         \<and> nh \<noteq> t"
  using u8_below_6 [OF assms(1)] u8_below_6 [OF assms(2)] assms(4)
    u8_next_below_6 [OF assms(1,3)]
  by (elim disjE; hypsubst; simp)

lemma ring_release:
  assumes "(h::u8) < 6" and "(t::u8) < 6" and "h \<noteq> t"
  shows "(if t + 1 = 6 then 0 else t + 1) < (6::u8)
         \<and> (if t + 1 = 6 then 0 else t + 1) \<noteq> t
         \<and> (unat h + 6 - unat (if t + 1 = 6 then 0 else t + 1)) mod 6 + 1
             = (unat h + 6 - unat t) mod 6"
  using u8_below_6 [OF assms(1)] u8_below_6 [OF assms(2)] assms(3)
  by (elim disjE; hypsubst; simp)

lemma ring_count:
  assumes "(h::u8) < 6" and "(t::u8) < 6" and "unat (nh::u8) = (unat h + 1) mod 6"
  shows "(unat h + 6 - unat t) mod 6 \<le> 5
         \<and> ((unat h + 6 - unat t) mod 6 = 0 \<longleftrightarrow> h = t)
         \<and> ((unat h + 6 - unat t) mod 6 = 5 \<longleftrightarrow> nh = t)"
  using u8_below_6 [OF assms(1)] u8_below_6 [OF assms(2)] u8_next_below_6 [OF assms(1,3)]
  by (elim disjE; hypsubst; simp)

lemma core_inv_reset: "core_inv (st_reset s) 0"
  by (simp add: core_inv_def ring_ok_def segment_count_def st_reset_def
      SEGMENT_BUFFER_SIZE_def LOAD_NOOP_def LOAD_BLOCK_def)

lemma st_prep_iter_go:
  assumes "st_prep_iter cfg pl s = Go s'"
  shows "\<exists>s2 p. load_prep_block cfg pl (init_prep_segment s) = Go s2 \<and> st_prep_data s2 = Some p"
  using assms
  by (auto simp add: st_prep_iter_def Let_def split: flow.splits option.splits prod.splits)

lemma st_prep_iter_st:
  assumes "st_prep_iter cfg pl s = Go s'"
  shows "st s' = st s"
  using assms
  by (auto simp add: st_prep_iter_def load_prep_block_def init_prep_segment_def Let_def
      split: flow.splits option.splits prod.splits if_splits)

lemma st_prep_iter_exit:
  assumes "st_prep_iter cfg pl s = Exit s'"
  shows "s' = init_prep_segment s"
  using assms
  by (auto simp add: st_prep_iter_def load_prep_block_def Let_def
      split: flow.splits option.splits prod.splits if_splits)

lemma st_prep_iter_no_fault:
  assumes "pl_prep_block s \<noteq> None \<or> pl_partial_block_flag s \<longrightarrow> st_prep_data s \<noteq> None"
  shows "st_prep_iter cfg pl s \<noteq> Fault"
  using assms
  by (auto simp add: st_prep_iter_def load_prep_block_def init_prep_segment_def Let_def
      split: flow.splits option.splits prod.splits if_splits)

lemma core_inv_iter_go:
  assumes "core_inv s n" and "segment_buffer_tail s \<noteq> segment_next_head s"
    and "st_prep_iter cfg pl s = Go s'"
  shows "core_inv s' (Suc n)"
proof -
  from st_prep_iter_go [OF assms(3)]
  obtain s2 p where l: "load_prep_block cfg pl (init_prep_segment s) = Go s2"
    and p: "st_prep_data s2 = Some p"
    by blast
  from st_prep_iter_loaded [OF l p] assms(3)
  have f: "st_prep_data s' = Some p"
    "segment_buffer_head s' = segment_next_head s"
    "segment_next_head s' =
       (if segment_next_head s + 1 = SEGMENT_BUFFER_SIZE then 0 else segment_next_head s + 1)"
    "segment_buffer_tail s' = segment_buffer_tail s"
    by auto
  have r: "segment_buffer_head s < 6" "segment_buffer_tail s < 6"
    "unat (segment_next_head s) = (unat (segment_buffer_head s) + 1) mod 6"
    "n = (unat (segment_buffer_head s) + 6 - unat (segment_buffer_tail s)) mod 6"
    using assms(1) by (simp_all add: core_inv_def ring_ok_def segment_count_def
        SEGMENT_BUFFER_SIZE_def)
  from ring_publish [OF r(1,2,3) assms(2)] f r(2,4) st_prep_iter_st [OF assms(3)] assms(1)
  show ?thesis
    by (simp add: core_inv_def ring_ok_def segment_count_def SEGMENT_BUFFER_SIZE_def)
qed

lemma core_inv_init_prep_segment:
  "core_inv (init_prep_segment s) n = core_inv s n"
  by (simp add: core_inv_def ring_ok_def segment_count_def init_prep_segment_def)

lemma core_inv_loop:
  assumes "core_inv s n" and "st_prep_loop fuel cfg pl s = Some (s', k)"
  shows "core_inv s' (n + k)"
  using assms
proof (induction fuel arbitrary: s n k)
  case 0
  then show ?case by (simp split: if_splits)
next
  case (Suc fuel)
  show ?case
  proof (cases "segment_buffer_tail s \<noteq> segment_next_head s")
    case False
    with Suc.prems show ?thesis by simp
  next
    case True
    show ?thesis
    proof (cases "st_prep_iter cfg pl s")
      case (Go s1)
      with True Suc.prems(2) obtain k1 where r: "st_prep_loop fuel cfg pl s1 = Some (s', k1)"
        and k: "k = Suc k1"
        by (auto split: option.splits)
      from Suc.IH [OF core_inv_iter_go [OF Suc.prems(1) True Go] r] k
      show ?thesis by simp
    next
      case (Exit s1)
      with True Suc.prems(2) have "s' = s1" "k = 0"
        by simp_all
      with st_prep_iter_exit [OF Exit] Suc.prems(1) show ?thesis
        by (simp add: core_inv_init_prep_segment)
    next
      case Fault
      with True Suc.prems(2) show ?thesis by simp
    qed
  qed
qed

lemma core_inv_prep:
  assumes "core_inv s n" and "st_prep_buffer fuel cfg pl s = Some (s', k)"
  shows "core_inv s' (n + k)"
  using assms core_inv_loop [of s n fuel cfg pl s' k]
  by (auto simp add: st_prep_buffer_def split: if_splits)

lemma st_prep_loop_returns:
  assumes "core_inv s n" and "5 \<le> n + fuel"
  shows "\<exists>r. st_prep_loop fuel cfg pl s = Some r"
  using assms
proof (induction fuel arbitrary: s n)
  case 0
  have r: "segment_buffer_head s < 6" "segment_buffer_tail s < 6"
    "unat (segment_next_head s) = (unat (segment_buffer_head s) + 1) mod 6"
    "n = (unat (segment_buffer_head s) + 6 - unat (segment_buffer_tail s)) mod 6"
    using "0.prems"(1) by (simp_all add: core_inv_def ring_ok_def segment_count_def
        SEGMENT_BUFFER_SIZE_def)
  have "n = 5 \<longleftrightarrow> segment_next_head s = segment_buffer_tail s" and "n \<le> 5"
    using ring_count [OF r(1,2,3)] r(4) by simp_all
  moreover have "n = 5"
    using \<open>n \<le> 5\<close> "0.prems"(2) by simp
  ultimately have "segment_next_head s = segment_buffer_tail s"
    by simp
  then show ?case by simp
next
  case (Suc fuel)
  show ?case
  proof (cases "segment_buffer_tail s \<noteq> segment_next_head s")
    case False
    then show ?thesis by simp
  next
    case True
    show ?thesis
    proof (cases "st_prep_iter cfg pl s")
      case (Go s1)
      from Suc.IH [OF core_inv_iter_go [OF Suc.prems(1) True Go]] Suc.prems(2)
      obtain r where "st_prep_loop fuel cfg pl s1 = Some r"
        by auto
      with True Go show ?thesis
        by (cases r) simp
    next
      case (Exit s1)
      with True show ?thesis by simp
    next
      case Fault
      with st_prep_iter_no_fault [of s cfg pl] Suc.prems(1) show ?thesis
        by (simp add: core_inv_def)
    qed
  qed
qed

lemma isr_latch_ring:
  "segment_buffer_head (isr_latch cfg s) = segment_buffer_head s
   \<and> segment_buffer_tail (isr_latch cfg s) = segment_buffer_tail s
   \<and> segment_next_head (isr_latch cfg s) = segment_next_head s
   \<and> pl_prep_block (isr_latch cfg s) = pl_prep_block s
   \<and> st_prep_data (isr_latch cfg s) = st_prep_data s
   \<and> pl_partial_block_flag (isr_latch cfg s) = pl_partial_block_flag s
   \<and> load_flag (st (isr_latch cfg s)) = load_flag (st s)"
  by (simp add: isr_latch_def)

lemma isr_load_ring:
  assumes "isr_load cfg pl s = Go s'"
  shows "segment_buffer_head s' = segment_buffer_head s
   \<and> segment_buffer_tail s' = segment_buffer_tail s
   \<and> segment_next_head s' = segment_next_head s
   \<and> pl_prep_block s' = pl_prep_block s
   \<and> st_prep_data s' = st_prep_data s
   \<and> pl_partial_block_flag s' = pl_partial_block_flag s
   \<and> load_flag (st s') = LOAD_NOOP
   \<and> (load_flag (st s) \<noteq> LOAD_NOOP \<longrightarrow> segment_buffer_head s \<noteq> segment_buffer_tail s)"
  using assms by (auto simp add: isr_load_def Let_def split: if_splits option.splits)

lemma isr_load_exit_ring:
  assumes "isr_load cfg pl s = Exit s'"
  shows "segment_buffer_head s' = segment_buffer_head s
   \<and> segment_buffer_tail s' = segment_buffer_tail s
   \<and> segment_next_head s' = segment_next_head s
   \<and> pl_prep_block s' = pl_prep_block s
   \<and> st_prep_data s' = st_prep_data s
   \<and> pl_partial_block_flag s' = pl_partial_block_flag s
   \<and> load_flag (st s') = load_flag (st s)"
  using assms
  by (auto simp add: isr_load_def st_go_idle_def Let_def split: if_splits option.splits)

lemma step_event_ring:
  "segment_buffer_head (step_event cfg b d s) = segment_buffer_head s
   \<and> segment_buffer_tail (step_event cfg b d s) = segment_buffer_tail s
   \<and> segment_next_head (step_event cfg b d s) = segment_next_head s
   \<and> pl_prep_block (step_event cfg b d s) = pl_prep_block s
   \<and> st_prep_data (step_event cfg b d s) = st_prep_data s
   \<and> pl_partial_block_flag (step_event cfg b d s) = pl_partial_block_flag s
   \<and> load_flag (st (step_event cfg b d s)) = load_flag (st s)"
  by (simp add: step_event_def step_x_def step_y_def step_z_def Let_def)

lemma isr_execute_ring:
  assumes "isr_execute cfg s = Some s'"
  shows "segment_buffer_head s' = segment_buffer_head s
   \<and> segment_buffer_tail s' = segment_buffer_tail s
   \<and> segment_next_head s' = segment_next_head s
   \<and> pl_prep_block s' = pl_prep_block s
   \<and> st_prep_data s' = st_prep_data s
   \<and> pl_partial_block_flag s' = pl_partial_block_flag s
   \<and> load_flag (st s') = load_flag (st s)"
  using assms
  by (auto simp add: isr_execute_def Let_def step_event_ring split: if_splits option.splits)

lemma isr_complete_ring:
  assumes "isr_complete s = Some s'"
  shows "segment_buffer_head s' = segment_buffer_head s
   \<and> segment_next_head s' = segment_next_head s
   \<and> pl_prep_block s' = pl_prep_block s
   \<and> st_prep_data s' = st_prep_data s
   \<and> pl_partial_block_flag s' = pl_partial_block_flag s
   \<and> (segment_buffer_tail s' = segment_buffer_tail s \<and> load_flag (st s') = load_flag (st s)
       \<or> segment_buffer_tail s' =
            (if segment_buffer_tail s + 1 = SEGMENT_BUFFER_SIZE then 0
             else segment_buffer_tail s + 1)
          \<and> load_flag (st s') \<noteq> LOAD_NOOP)"
  using assms
  by (auto simp add: isr_complete_def Let_def LOAD_NOOP_def LOAD_BLOCK_def LOAD_SEGMENT_def
      split: if_splits option.splits)


lemma core_inv_same_ring:
  assumes "core_inv s n"
    and "segment_buffer_head s' = segment_buffer_head s"
    and "segment_buffer_tail s' = segment_buffer_tail s"
    and "segment_next_head s' = segment_next_head s"
    and "pl_prep_block s' = pl_prep_block s" and "st_prep_data s' = st_prep_data s"
    and "pl_partial_block_flag s' = pl_partial_block_flag s"
    and "load_flag (st s') = load_flag (st s)
         \<or> segment_buffer_head s \<noteq> segment_buffer_tail s"
  shows "core_inv s' n"
proof -
  have "ring_ok s' = ring_ok s" "segment_count s' = segment_count s"
    using assms(2-4) by (simp_all add: ring_ok_def segment_count_def)
  moreover have "load_flag (st s') = LOAD_NOOP
      \<longrightarrow> segment_buffer_head s' \<noteq> segment_buffer_tail s'"
    using assms(1,2,3,8) by (auto simp add: core_inv_def)
  moreover have "pl_prep_block s' \<noteq> None \<or> pl_partial_block_flag s'
      \<longrightarrow> st_prep_data s' \<noteq> None"
    using assms(1,5,6,7) by (simp add: core_inv_def)
  ultimately show ?thesis
    using assms(1) by (simp add: core_inv_def)
qed

lemma core_inv_release:
  assumes "core_inv s n"
    and "segment_buffer_head s \<noteq> segment_buffer_tail s"
    and "segment_buffer_head s' = segment_buffer_head s"
    and "segment_buffer_tail s' =
           (if segment_buffer_tail s + 1 = SEGMENT_BUFFER_SIZE then 0
            else segment_buffer_tail s + 1)"
    and "segment_next_head s' = segment_next_head s"
    and "pl_prep_block s' = pl_prep_block s" and "st_prep_data s' = st_prep_data s"
    and "pl_partial_block_flag s' = pl_partial_block_flag s"
    and "load_flag (st s') \<noteq> LOAD_NOOP"
  shows "core_inv s' (n - 1)" and "segment_buffer_tail s' \<noteq> segment_buffer_tail s"
proof -
  have r: "segment_buffer_head s < 6" "segment_buffer_tail s < 6"
    "unat (segment_next_head s) = (unat (segment_buffer_head s) + 1) mod 6"
    "n = (unat (segment_buffer_head s) + 6 - unat (segment_buffer_tail s)) mod 6"
    using assms(1) by (simp_all add: core_inv_def ring_ok_def segment_count_def
        SEGMENT_BUFFER_SIZE_def)
  let ?t = "if segment_buffer_tail s + 1 = 6 then 0 else segment_buffer_tail s + 1"
  have t': "segment_buffer_tail s' = ?t"
    using assms(4) by (simp add: SEGMENT_BUFFER_SIZE_def)
  from ring_release [OF r(1,2) assms(2)]
  have q: "?t < 6" "?t \<noteq> segment_buffer_tail s"
    "(unat (segment_buffer_head s) + 6 - unat ?t) mod 6 + 1 = n"
    using r(4) by simp_all
  show "segment_buffer_tail s' \<noteq> segment_buffer_tail s"
    using q(2) t' by simp
  have "ring_ok s'"
    using r(1,3) q(1) t' assms(3,5) by (simp add: ring_ok_def SEGMENT_BUFFER_SIZE_def)
  moreover have "segment_count s' + 1 = n"
    using q(3) t' assms(3) by (simp add: segment_count_def SEGMENT_BUFFER_SIZE_def)
  then have "n - 1 = segment_count s'"
    by simp
  moreover have "pl_prep_block s' \<noteq> None \<or> pl_partial_block_flag s'
      \<longrightarrow> st_prep_data s' \<noteq> None"
    using assms(1,6,7,8) by (simp add: core_inv_def)
  ultimately show "core_inv s' (n - 1)"
    using assms(9) by (simp add: core_inv_def)
qed

lemma core_inv_isr:
  assumes "core_inv s n" and "isr cfg pl s = Some s'"
  shows "core_inv s' (if segment_buffer_tail s' = segment_buffer_tail s then n else n - 1)"
proof (cases "busy s")
  case True
  with assms show ?thesis by (simp add: isr_def)
next
  case False
  let ?a = "(isr_latch cfg s)\<lparr>busy := True\<rparr>"
  have a: "segment_buffer_head ?a = segment_buffer_head s"
    "segment_buffer_tail ?a = segment_buffer_tail s"
    "segment_next_head ?a = segment_next_head s"
    "pl_prep_block ?a = pl_prep_block s" "st_prep_data ?a = st_prep_data s"
    "pl_partial_block_flag ?a = pl_partial_block_flag s"
    "load_flag (st ?a) = load_flag (st s)"
    using isr_latch_ring [of cfg s] by simp_all
  show ?thesis
  proof (cases "isr_load cfg pl ?a")
    case (Go s1)
    then obtain s2 s3 where e: "isr_execute cfg s1 = Some s2" and c: "isr_complete s2 = Some s3"
      and s': "s' = s3\<lparr>busy := False\<rparr>"
      using assms(2) False by (auto simp add: isr_def split: option.splits)
    have "load_flag (st s) = LOAD_NOOP \<longrightarrow> segment_buffer_head s \<noteq> segment_buffer_tail s"
      using assms(1) by (simp add: core_inv_def)
    then have ne: "segment_buffer_head s \<noteq> segment_buffer_tail s"
      using isr_load_ring [OF Go] a(1,2,7) by auto
    have f2: "segment_buffer_head s2 = segment_buffer_head s"
      "segment_buffer_tail s2 = segment_buffer_tail s"
      "segment_next_head s2 = segment_next_head s"
      "pl_prep_block s2 = pl_prep_block s" "st_prep_data s2 = st_prep_data s"
      "pl_partial_block_flag s2 = pl_partial_block_flag s"
      using isr_load_ring [OF Go] isr_execute_ring [OF e] a by simp_all
    have f3: "segment_buffer_head s' = segment_buffer_head s"
      "segment_next_head s' = segment_next_head s"
      "pl_prep_block s' = pl_prep_block s" "st_prep_data s' = st_prep_data s"
      "pl_partial_block_flag s' = pl_partial_block_flag s"
      using isr_complete_ring [OF c] f2 s' by simp_all
    from isr_complete_ring [OF c]
    consider (same) "segment_buffer_tail s3 = segment_buffer_tail s2"
      | (moved) "segment_buffer_tail s3 =
            (if segment_buffer_tail s2 + 1 = SEGMENT_BUFFER_SIZE then 0
             else segment_buffer_tail s2 + 1)" "load_flag (st s3) \<noteq> LOAD_NOOP"
      by blast
    then show ?thesis
    proof cases
      case same
      then have t: "segment_buffer_tail s' = segment_buffer_tail s"
        using f2(2) s' by simp
      have "core_inv s' n"
        using assms(1) f3(1) t f3(2-5) ne by (intro core_inv_same_ring [of s n s']) simp_all
      with t show ?thesis by simp
    next
      case moved
      then have t: "segment_buffer_tail s' =
            (if segment_buffer_tail s + 1 = SEGMENT_BUFFER_SIZE then 0
             else segment_buffer_tail s + 1)"
        and lf: "load_flag (st s') \<noteq> LOAD_NOOP"
        using f2(2) s' by simp_all
      from core_inv_release [OF assms(1) ne f3(1) t f3(2-5) lf]
      show ?thesis by simp
    qed
  next
    case (Exit s1)
    then have s1: "s' = s1"
      using assms(2) False by (simp add: isr_def)
    have t: "segment_buffer_tail s' = segment_buffer_tail s"
      using isr_load_exit_ring [OF Exit] a s1 by simp
    have "core_inv s' n"
      using assms(1) isr_load_exit_ring [OF Exit] a s1
      by (intro core_inv_same_ring [of s n s']) simp_all
    with t show ?thesis by simp
  next
    case Fault
    then show ?thesis using assms(2) False by (simp add: isr_def)
  qed
qed


lemma core_inv_wake_up:
  "core_inv s n \<Longrightarrow> core_inv (st_wake_up cfg s) n"
  by (simp add: core_inv_def ring_ok_def segment_count_def st_wake_up_def Let_def
      LOAD_NOOP_def LOAD_BLOCK_def)

lemma core_inv_go_idle:
  "core_inv s n \<Longrightarrow> core_inv (st_go_idle cfg s) n"
  by (simp add: core_inv_def ring_ok_def segment_count_def st_go_idle_def Let_def)

lemma core_inv_feed_hold:
  "core_inv s n \<Longrightarrow> core_inv (st_feed_hold s) n"
  by (simp add: core_inv_def ring_ok_def segment_count_def st_feed_hold_def)

lemma core_inv_reinitialize:
  "core_inv s n \<Longrightarrow> core_inv (st_cycle_reinitialize s) n"
  by (simp add: core_inv_def ring_ok_def segment_count_def st_cycle_reinitialize_def)

lemma core_inv_fetch:
  assumes "core_inv s n" and "st_fetch_partial_block_parameters s i out = Some (s', out')"
  shows "core_inv s' n"
  using assms
  by (auto simp add: core_inv_def ring_ok_def segment_count_def
      st_fetch_partial_block_parameters_def Let_def split: option.splits)

lemma core_inv_timer0:
  "core_inv s n \<Longrightarrow> core_inv (timer0_ovf cfg s) n"
  by (simp add: core_inv_def ring_ok_def segment_count_def timer0_ovf_def)

lemma core_inv_sys_state:
  "core_inv s n \<Longrightarrow> core_inv (s\<lparr>sys_state := x\<rparr>) n"
  by (simp add: core_inv_def ring_ok_def segment_count_def)

lemma reach_core_inv:
  "reach cfg s n \<Longrightarrow> core_inv s n"
proof (induction rule: reach.induct)
  case (reach_reset s)
  show ?case by (rule core_inv_reset)
next
  case (reach_prep s n fuel pl s' k)
  then show ?case by (auto intro: core_inv_prep)
next
  case (reach_isr s n pl s')
  from core_inv_isr [OF reach_isr.IH reach_isr.hyps(2)] show ?case .
next
  case (reach_wake_up s n)
  then show ?case by (auto intro: core_inv_wake_up)
next
  case (reach_go_idle s n)
  then show ?case by (auto intro: core_inv_go_idle)
next
  case (reach_feed_hold s n)
  then show ?case by (auto intro: core_inv_feed_hold)
next
  case (reach_reinitialize s n)
  then show ?case by (auto intro: core_inv_reinitialize)
next
  case (reach_fetch s n i out s' out')
  then show ?case by (auto intro: core_inv_fetch)
next
  case (reach_timer0 s n)
  then show ?case by (auto intro: core_inv_timer0)
next
  case (reach_sys_state s n x)
  then show ?case by (auto intro: core_inv_sys_state)
qed


text \<open>
  C7. In every state the entry points of the core produce from a reset, with \<open>n\<close> the
  number of segments published by the preparer and not yet released by the step
  interrupt: head and tail are below \<open>SEGMENT_BUFFER_SIZE\<close>; \<open>segment_next_head\<close> is
  \<open>(head + 1) mod SEGMENT_BUFFER_SIZE\<close>; the buffer is empty (\<open>n = 0\<close>) exactly when
  \<open>head = tail\<close> and full (\<open>n = SEGMENT_BUFFER_SIZE - 1\<close>) exactly when \<open>next_head = tail\<close>;
  \<open>n\<close> is the distance from tail to head and never exceeds \<open>SEGMENT_BUFFER_SIZE - 1\<close>,
  in particular after every call of \<open>st_prep_buffer\<close>, which returns after at most
  \<open>SEGMENT_BUFFER_SIZE - 1\<close> passes of its loop. \<open>st_reset\<close> sets head and tail to 0 and
  \<open>segment_next_head\<close> to 1.
\<close>

theorem ring_buffer_invariant:
  assumes "reach cfg s n"
  shows "segment_buffer_head s < SEGMENT_BUFFER_SIZE
         \<and> segment_buffer_tail s < SEGMENT_BUFFER_SIZE
         \<and> unat (segment_next_head s)
             = (unat (segment_buffer_head s) + 1) mod unat SEGMENT_BUFFER_SIZE
         \<and> n = segment_count s
         \<and> n \<le> unat SEGMENT_BUFFER_SIZE - 1
         \<and> (n = 0 \<longleftrightarrow> segment_buffer_head s = segment_buffer_tail s)
         \<and> (n = unat SEGMENT_BUFFER_SIZE - 1 \<longleftrightarrow> segment_next_head s = segment_buffer_tail s)
         \<and> (\<exists>s' k. st_prep_buffer (unat SEGMENT_BUFFER_SIZE - 1) cfg pl s = Some (s', k)
               \<and> reach cfg s' (n + k) \<and> n + k \<le> unat SEGMENT_BUFFER_SIZE - 1)
         \<and> segment_buffer_head (st_reset s) = 0 \<and> segment_buffer_tail (st_reset s) = 0
         \<and> segment_next_head (st_reset s) = 1 \<and> reach cfg (st_reset s) 0"
proof -
  have ci: "core_inv s n"
    using assms by (rule reach_core_inv)
  then have r: "segment_buffer_head s < 6" "segment_buffer_tail s < 6"
    "unat (segment_next_head s) = (unat (segment_buffer_head s) + 1) mod 6"
    "n = (unat (segment_buffer_head s) + 6 - unat (segment_buffer_tail s)) mod 6"
    by (simp_all add: core_inv_def ring_ok_def segment_count_def SEGMENT_BUFFER_SIZE_def)
  have c: "n \<le> 5" "n = 0 \<longleftrightarrow> segment_buffer_head s = segment_buffer_tail s"
    "n = 5 \<longleftrightarrow> segment_next_head s = segment_buffer_tail s"
    using ring_count [OF r(1,2,3)] r(4) by simp_all
  obtain s' k where p: "st_prep_buffer 5 cfg pl s = Some (s', k)"
  proof (cases "sys_state s = STATE_QUEUED")
    case True
    then show ?thesis using that by (simp add: st_prep_buffer_def)
  next
    case False
    from st_prep_loop_returns [OF ci, of 5 cfg pl] obtain r where "st_prep_loop 5 cfg pl s = Some r"
      by auto
    with False show ?thesis using that by (cases r) (simp add: st_prep_buffer_def)
  qed
  have rp: "reach cfg s' (n + k)"
    using assms p by (rule reach_prep)
  then have "core_inv s' (n + k)"
    by (rule reach_core_inv)
  then have r': "segment_buffer_head s' < 6" "segment_buffer_tail s' < 6"
    "unat (segment_next_head s') = (unat (segment_buffer_head s') + 1) mod 6"
    "n + k = (unat (segment_buffer_head s') + 6 - unat (segment_buffer_tail s')) mod 6"
    by (simp_all add: core_inv_def ring_ok_def segment_count_def SEGMENT_BUFFER_SIZE_def)
  have c': "n + k \<le> 5"
    using ring_count [OF r'(1,2,3)] r'(4) by simp
  have "segment_buffer_head (st_reset s) = 0 \<and> segment_buffer_tail (st_reset s) = 0
         \<and> segment_next_head (st_reset s) = 1"
    by (simp add: st_reset_def)
  moreover have "reach cfg (st_reset s) 0"
    by (rule reach_reset)
  ultimately show ?thesis
    using r c p rp c' by (simp add: segment_count_def SEGMENT_BUFFER_SIZE_def)
qed

theorem ring_buffer_invariant_witness:
  "reach example_config (st_reset power_on) 0
   \<and> segment_buffer_head (st_reset power_on) < SEGMENT_BUFFER_SIZE
   \<and> segment_buffer_tail (st_reset power_on) < SEGMENT_BUFFER_SIZE
   \<and> segment_count (st_reset power_on) = 0
   \<and> segment_buffer_head (st_reset power_on) = segment_buffer_tail (st_reset power_on)
   \<and> (\<exists>s' k. st_prep_buffer 5 example_config trapezoid_planner (st_reset power_on) = Some (s', k)
         \<and> reach example_config s' k \<and> k \<le> 5)"
proof -
  have h: "reach example_config (st_reset power_on) 0"
    by (rule reach_reset)
  from ring_buffer_invariant [OF h, of trapezoid_planner]
  show ?thesis
    using h by (simp add: SEGMENT_BUFFER_SIZE_def)
qed

end
